theory Spec2Isabelle
  imports Complex_Main "HOL-Library.Word" "HOL-Library.AList"
begin

unbundle bit_operations_syntax

section \<open>float64 values and their comparisons\<close>

text \<open>
  Go's \<^verbatim>\<open>float64\<close>, here the type \<open>f64\<close>. A finite value is the real number it
  denotes; the two infinities and NaN are values of their own. Both signed zeros are \<open>Finite 0\<close>: Go's comparisons
  do not tell them apart. Only the comparison operators are defined here, with their
  IEEE-754 meaning (every comparison with NaN is false, also \<^verbatim>\<open>NaN == NaN\<close>; \<^verbatim>\<open>!=\<close> is
  the negation of \<^verbatim>\<open>==\<close>). Rounded arithmetic is not defined: where a function of the
  source computes with \<^verbatim>\<open>*\<close>, \<^verbatim>\<open>/\<close> or the math package, the operation is a
  parameter of its model, and the theorems hold for every such operation.
\<close>

datatype f64 = Finite real | PosInf | NegInf | NaN

fun f_eq :: "f64 \<Rightarrow> f64 \<Rightarrow> bool" where
  "f_eq (Finite a) (Finite b) = (a = b)"
| "f_eq PosInf PosInf = True"
| "f_eq NegInf NegInf = True"
| "f_eq _ _ = False"

fun f_gt :: "f64 \<Rightarrow> f64 \<Rightarrow> bool" where
  "f_gt (Finite a) (Finite b) = (a > b)"
| "f_gt PosInf (Finite b) = True"
| "f_gt PosInf NegInf = True"
| "f_gt (Finite a) NegInf = True"
| "f_gt _ _ = False"

definition f_ge :: "f64 \<Rightarrow> f64 \<Rightarrow> bool" where
  "f_ge a b = (f_gt a b \<or> f_eq a b)"

definition f_lt :: "f64 \<Rightarrow> f64 \<Rightarrow> bool" where
  "f_lt a b = f_gt b a"

definition f_ne :: "f64 \<Rightarrow> f64 \<Rightarrow> bool" where
  "f_ne a b = (\<not> f_eq a b)"

section \<open>Sensor validation and flying classification (internal/adsb/client.go)\<close>

text \<open>
  Modelled from the spec: the declaration of \<^verbatim>\<open>config.FlightPhasesConfig\<close> is not among
  the sources. The record has the fields that \<^verbatim>\<open>ValidateSensorData\<close> and \<^verbatim>\<open>IsFlying\<close>
  read (the spec's thresholds); they are float64, since the source compares them
  with float64 operands without a conversion.
\<close>

record FlightPhasesConfig =
  ImpossibleAltDropThresholdFt :: f64
  ImpossibleSpeedDropThresholdKts :: f64
  ImpossibleSpeedDropMinAltFt :: f64
  HighAltitudeOverrideFt :: f64
  FlyingMinTASKts :: f64
  FlyingMinAltFt :: f64
  HelicopterAltMultiplier :: f64
  HighSpeedThresholdKts :: f64

text \<open>
  \<^verbatim>\<open>ValidateSensorData\<close>. The parameter \<open>distanceNM\<close> stands for
  \<^verbatim>\<open>MetersToNM(Haversine(aircraftLat, aircraftLon, stationLat, stationLon))\<close>, the one
  arithmetic expression of the function. The three corrected values are assigned in
  the source's order: the altitude chain, the TAS chain, the GS chain, then the
  combined drop, which overwrites all three.
\<close>

definition ValidateSensorData ::
  "(f64 \<Rightarrow> f64 \<Rightarrow> f64 \<Rightarrow> f64 \<Rightarrow> f64) \<Rightarrow>
   f64 \<Rightarrow> f64 \<Rightarrow> f64 \<Rightarrow> f64 \<Rightarrow> f64 \<Rightarrow> f64 \<Rightarrow>
   f64 \<Rightarrow> f64 \<Rightarrow> f64 \<Rightarrow> f64 \<Rightarrow> f64 \<Rightarrow>
   FlightPhasesConfig \<Rightarrow> f64 \<times> f64 \<times> f64" where
  "ValidateSensorData distanceNM currentTAS currentGS currentAlt prevTAS prevGS prevAlt
       aircraftLat aircraftLon stationLat stationLon airportRangeNM config =
    (let distanceToAirportNM = distanceNM aircraftLat aircraftLon stationLat stationLon;
         correctedAlt =
           (if f_eq currentAlt (Finite 0) \<and> f_gt prevAlt (ImpossibleAltDropThresholdFt config)
              then prevAlt
            else if f_eq currentAlt (Finite 0) \<and> f_gt prevAlt (Finite 5000)
                    \<and> f_gt distanceToAirportNM airportRangeNM
              then prevAlt
            else if f_eq currentAlt (Finite 0) \<and> f_gt prevAlt (Finite 1000)
                    \<and> f_gt distanceToAirportNM airportRangeNM
              then prevAlt
            else currentAlt);
         correctedTAS =
           (if f_eq currentTAS (Finite 0) \<and> f_gt prevTAS (ImpossibleSpeedDropThresholdKts config)
                 \<and> f_gt prevAlt (ImpossibleSpeedDropMinAltFt config)
              then prevTAS
            else if f_eq currentTAS (Finite 0) \<and> f_gt prevTAS (Finite 42)
                    \<and> f_gt distanceToAirportNM airportRangeNM
              then prevTAS
            else currentTAS);
         correctedGS =
           (if f_eq currentGS (Finite 0) \<and> f_gt prevGS (ImpossibleSpeedDropThresholdKts config)
                 \<and> f_gt prevAlt (ImpossibleSpeedDropMinAltFt config)
              then prevGS
            else if f_eq currentGS (Finite 0) \<and> f_gt prevGS (Finite 42)
                    \<and> f_gt distanceToAirportNM airportRangeNM
              then prevGS
            else currentGS)
     in if f_eq currentAlt (Finite 0) \<and> f_eq currentTAS (Finite 0) \<and> f_eq currentGS (Finite 0)
           \<and> f_gt prevAlt (Finite 1000) \<and> (f_gt prevTAS (Finite 50) \<or> f_gt prevGS (Finite 50))
        then (prevTAS, prevGS, prevAlt)
        else (correctedTAS, correctedGS, correctedAlt))"

text \<open>
  \<^verbatim>\<open>IsFlying\<close>. \<open>fmul\<close> and \<open>fdiv\<close> are float64 multiplication and division, used by
  the helicopter rule only.
\<close>

definition IsFlying ::
  "(f64 \<Rightarrow> f64 \<Rightarrow> f64) \<Rightarrow> (f64 \<Rightarrow> f64 \<Rightarrow> f64) \<Rightarrow>
   f64 \<Rightarrow> f64 \<Rightarrow> f64 \<Rightarrow> FlightPhasesConfig \<Rightarrow> bool" where
  "IsFlying fmul fdiv tas gs altitude config =
    (let speed = (if f_eq tas (Finite 0) then gs else tas)
     in if f_ge altitude (HighAltitudeOverrideFt config) then True
        else if f_ge speed (FlyingMinTASKts config) \<and> f_ge altitude (FlyingMinAltFt config)
          then True
        else if f_ge altitude (fmul (FlyingMinAltFt config) (HelicopterAltMultiplier config))
                \<and> f_gt speed (fdiv (FlyingMinTASKts config) (Finite 2))
          then True
        else if f_ge speed (HighSpeedThresholdKts config) then True
        else False)"

text \<open>The speed \<^verbatim>\<open>IsFlying\<close> works with: TAS, or the ground speed when TAS is 0.\<close>

definition effective_speed :: "f64 \<Rightarrow> f64 \<Rightarrow> f64" where
  "effective_speed tas gs = (if f_eq tas (Finite 0) then gs else tas)"

text \<open>A configuration and a distance function to evaluate the model on.\<close>

definition cfg0 :: FlightPhasesConfig where
  "cfg0 = \<lparr> ImpossibleAltDropThresholdFt = Finite 10000,
            ImpossibleSpeedDropThresholdKts = Finite 200,
            ImpossibleSpeedDropMinAltFt = Finite 5000,
            HighAltitudeOverrideFt = Finite 20000,
            FlyingMinTASKts = Finite 50,
            FlyingMinAltFt = Finite 700,
            HelicopterAltMultiplier = Finite 2,
            HighSpeedThresholdKts = Finite 150 \<rparr>"

definition dist0 :: "f64 \<Rightarrow> f64 \<Rightarrow> f64 \<Rightarrow> f64 \<Rightarrow> f64" where
  "dist0 lat1 lon1 lat2 lon2 = Finite 3"

section \<open>Streaming WAV header (createWAVHeader and WAVReader, in internal/weather/models.go)\<close>

type_synonym byte = "8 word"

datatype go_error =
  ErrShortBuffer | ErrEOF | ErrClosedPipe | ErrOther string | Wrapped string go_error

record WAVHeader =
  ChunkID :: "byte list"
  ChunkSize :: "32 word"
  Format :: "byte list"
  Subchunk1ID :: "byte list"
  Subchunk1Size :: "32 word"
  AudioFormat :: "16 word"
  NumChannels :: "16 word"
  SampleRate :: "32 word"
  ByteRate :: "32 word"
  BlockAlign :: "16 word"
  BitsPerSample :: "16 word"
  Subchunk2ID :: "byte list"
  Subchunk2Size :: "32 word"

text \<open>The bytes of an ASCII string, as \<^verbatim>\<open>[4]byte{'R', 'I', 'F', 'F'}\<close> lists them.\<close>

definition ascii :: "string \<Rightarrow> byte list" where
  "ascii s = map (\<lambda>c. of_nat (of_char c)) s"

text \<open>\<^verbatim>\<open>binary.LittleEndian.PutUint32\<close> and \<^verbatim>\<open>PutUint16\<close>: the bytes written, low byte first.\<close>

definition PutUint32 :: "32 word \<Rightarrow> byte list" where
  "PutUint32 v = [ucast v, ucast (drop_bit 8 v), ucast (drop_bit 16 v), ucast (drop_bit 24 v)]"

definition PutUint16 :: "16 word \<Rightarrow> byte list" where
  "PutUint16 v = [ucast v, ucast (drop_bit 8 v)]"

text \<open>\<^verbatim>\<open>binary.LittleEndian.Uint32\<close> and \<^verbatim>\<open>Uint16\<close>, to read a field of the header back.\<close>

definition Uint32 :: "byte list \<Rightarrow> 32 word" where
  "Uint32 b = ucast (b ! 0) OR push_bit 8 (ucast (b ! 1)) OR push_bit 16 (ucast (b ! 2))
              OR push_bit 24 (ucast (b ! 3))"

definition Uint16 :: "byte list \<Rightarrow> 16 word" where
  "Uint16 b = ucast (b ! 0) OR push_bit 8 (ucast (b ! 1))"

text \<open>
  \<^verbatim>\<open>copy(buf[lo:hi], src)\<close> and the \<^verbatim>\<open>Put\<close> calls on \<^verbatim>\<open>buf[lo:hi]\<close>: the bytes of \<open>src\<close>
  replace those of \<open>buf\<close> from offset \<open>lo\<close> on. Every call of \<^verbatim>\<open>createWAVHeader\<close> has
  \<open>hi - lo = length src\<close> and \<open>hi \<le> 44\<close>.
\<close>

definition copy_at :: "nat \<Rightarrow> byte list \<Rightarrow> byte list \<Rightarrow> byte list" where
  "copy_at lo src buf = take lo buf @ src @ drop (lo + length src) buf"

text \<open>The slice \<^verbatim>\<open>buf[lo:hi]\<close>.\<close>

definition slice :: "nat \<Rightarrow> nat \<Rightarrow> 'a list \<Rightarrow> 'a list" where
  "slice lo hi buf = take (hi - lo) (drop lo buf)"

text \<open>
  \<^verbatim>\<open>createWAVHeader\<close>. \<^verbatim>\<open>sampleRate\<close> and \<^verbatim>\<open>channels\<close> are Go \<^verbatim>\<open>int\<close>s (64 bits): their
  products wrap at 64 bits and the conversions to \<^verbatim>\<open>uint32\<close> and \<^verbatim>\<open>uint16\<close> truncate.
\<close>

definition wav_header_fields :: "64 word \<Rightarrow> 64 word \<Rightarrow> WAVHeader" where
  "wav_header_fields sampleRate channels =
    (let bitsPerSample = (16 :: 16 word);
         byteRate = (ucast (sampleRate * channels * ucast (bitsPerSample div 8)) :: 32 word);
         blockAlign = (ucast (channels * ucast (bitsPerSample div 8)) :: 16 word);
         dataSize = (0xFFFFFFFF - 36 :: 32 word)
     in \<lparr> ChunkID = ascii ''RIFF'',
          ChunkSize = 36 + dataSize,
          Format = ascii ''WAVE'',
          Subchunk1ID = ascii ''fmt '',
          Subchunk1Size = 16,
          AudioFormat = 1,
          NumChannels = ucast channels,
          SampleRate = ucast sampleRate,
          ByteRate = byteRate,
          BlockAlign = blockAlign,
          BitsPerSample = bitsPerSample,
          Subchunk2ID = ascii ''data'',
          Subchunk2Size = dataSize \<rparr>)"

definition header_bytes :: "WAVHeader \<Rightarrow> byte list" where
  "header_bytes h =
    (let b0 = replicate 44 (0 :: byte);
         b1 = copy_at 0 (ChunkID h) b0;
         b2 = copy_at 4 (PutUint32 (ChunkSize h)) b1;
         b3 = copy_at 8 (Format h) b2;
         b4 = copy_at 12 (Subchunk1ID h) b3;
         b5 = copy_at 16 (PutUint32 (Subchunk1Size h)) b4;
         b6 = copy_at 20 (PutUint16 (AudioFormat h)) b5;
         b7 = copy_at 22 (PutUint16 (NumChannels h)) b6;
         b8 = copy_at 24 (PutUint32 (SampleRate h)) b7;
         b9 = copy_at 28 (PutUint32 (ByteRate h)) b8;
         b10 = copy_at 32 (PutUint16 (BlockAlign h)) b9;
         b11 = copy_at 34 (PutUint16 (BitsPerSample h)) b10;
         b12 = copy_at 36 (Subchunk2ID h) b11;
         b13 = copy_at 40 (PutUint32 (Subchunk2Size h)) b12
     in b13)"

definition createWAVHeader :: "64 word \<Rightarrow> 64 word \<Rightarrow> byte list" where
  "createWAVHeader sampleRate channels = header_bytes (wav_header_fields sampleRate channels)"

text \<open>
  Writing consecutive chunks into a buffer from an offset on, one \<open>copy_at\<close> each:
  the pattern of \<open>header_bytes\<close>, used to relate it to the concatenation of its fields.
\<close>

fun write_chunks :: "nat \<Rightarrow> byte list list \<Rightarrow> byte list \<Rightarrow> byte list" where
  "write_chunks off [] buf = buf"
| "write_chunks off (c # cs) buf = write_chunks (off + length c) cs (copy_at off c buf)"

text \<open>
  \<^verbatim>\<open>WAVReader\<close>. The wrapped \<^verbatim>\<open>io.ReadCloser\<close> is a state \<open>'r\<close> with a read function: given
  the state and the capacity of the destination slice it returns the bytes read
  (at most that many), the error, and the new state. \<open>WAVReader_Read rd wr n\<close> is
  \<^verbatim>\<open>wr.Read(p)\<close> with \<open>n = len(p)\<close>; it returns the bytes stored at the start of \<^verbatim>\<open>p\<close>
  (their number is the count the source returns) and the error.
\<close>

record 'r WAVReader =
  reader :: 'r
  headerSent :: bool
  header :: "byte list"

type_synonym 'r io_read = "'r \<Rightarrow> nat \<Rightarrow> (byte list \<times> go_error option) \<times> 'r"

definition NewWAVReader :: "'r \<Rightarrow> 64 word \<Rightarrow> 64 word \<Rightarrow> 'r WAVReader" where
  "NewWAVReader r sampleRate channels =
     \<lparr> reader = r, headerSent = False, header = createWAVHeader sampleRate channels \<rparr>"

definition WAVReader_Read ::
  "'r io_read \<Rightarrow> 'r WAVReader \<Rightarrow> nat \<Rightarrow> (byte list \<times> go_error option) \<times> 'r WAVReader" where
  "WAVReader_Read rd wr n =
    (if \<not> headerSent wr then
       (let headerLen = length (header wr) in
        if n < headerLen then (([], Some ErrShortBuffer), wr)
        else
          (let wr' = wr\<lparr>headerSent := True\<rparr> in
           if n > headerLen then
             (case rd (reader wr') (n - headerLen) of
                ((bs, err), r') \<Rightarrow> ((header wr' @ bs, err), wr'\<lparr>reader := r'\<rparr>))
           else ((header wr', None), wr')))
     else
       (case rd (reader wr) n of ((bs, err), r') \<Rightarrow> ((bs, err), wr\<lparr>reader := r'\<rparr>)))"

section \<open>Weather fetch with retries (internal/weather/client.go)\<close>

text \<open>
  What one HTTP request of \<^verbatim>\<open>fetchWithRetry\<close> can meet: \<^verbatim>\<open>httpClient.Get\<close> fails, or
  there is a response with a status code and a body that the JSON decoder rejects
  (\<open>Inl\<close>) or decodes (\<open>Inr\<close>). The environment is a function from the number of
  requests made so far to the outcome of the next one.
\<close>

datatype 'd outcome = GetError string | Response int "string + 'd"

datatype fetch_error = RequestError string | UnexpectedStatus int | DecodeError string

text \<open>The error an outcome leaves in \<^verbatim>\<open>lastErr\<close>; \<open>None\<close> for a success.\<close>

fun err_of :: "'d outcome \<Rightarrow> fetch_error option" where
  "err_of (GetError e) = Some (RequestError e)"
| "err_of (Response st body) =
     (if st \<noteq> 200 then Some (UnexpectedStatus st)
      else case body of Inl e \<Rightarrow> Some (DecodeError e) | Inr d \<Rightarrow> None)"

text \<open>
  \<^verbatim>\<open>time.Duration(500*(1<<uint(attempt-1))) * time.Millisecond\<close>: a count of nanoseconds
  in an int64. \<^verbatim>\<open>attempt\<close> is a Go \<^verbatim>\<open>int\<close> (64 bits); the shift, the product with 500 and
  the product with the 1000000 nanoseconds of a millisecond all wrap at 64 bits, and
  a shift count of 64 or more gives 0.
\<close>

definition backoffDuration :: "64 word \<Rightarrow> 64 word" where
  "backoffDuration attempt = (500 * push_bit (unat (attempt - 1)) 1) * 1000000"

text \<open>
  The loop \<^verbatim>\<open>for attempt := 0; attempt <= c.config.MaxRetries; attempt++\<close>. The state is
  the loop counter, \<^verbatim>\<open>lastErr\<close>, the number of requests made and the durations slept
  so far; the result is the returned pair \<^verbatim>\<open>(data, err)\<close> with the final request count
  and sleep list. The counter wraps at 64 bits and the comparison is signed, so with
  \<^verbatim>\<open>MaxRetries\<close> the largest int64 the loop has no exit but a success: not returning
  is the value \<open>None\<close>.
\<close>

partial_function (option) fetch_loop ::
  "(nat \<Rightarrow> 'd outcome) \<Rightarrow> 64 word \<Rightarrow> 64 word \<Rightarrow> fetch_error option \<Rightarrow> nat \<Rightarrow> 64 word list \<Rightarrow>
   (('d option \<times> fetch_error option) \<times> nat \<times> 64 word list) option" where
  "fetch_loop env MaxRetries attempt lastErr k sleeps =
    (if attempt \<le>s MaxRetries then
       (let sleeps' = (if 0 <s attempt then sleeps @ [backoffDuration attempt] else sleeps) in
        case env k of
          GetError e \<Rightarrow>
            fetch_loop env MaxRetries (attempt + 1) (Some (RequestError e)) (k + 1) sleeps'
        | Response st body \<Rightarrow>
            if st \<noteq> 200
            then fetch_loop env MaxRetries (attempt + 1) (Some (UnexpectedStatus st)) (k + 1) sleeps'
            else (case body of
                    Inl e \<Rightarrow>
                      fetch_loop env MaxRetries (attempt + 1) (Some (DecodeError e)) (k + 1) sleeps'
                  | Inr d \<Rightarrow> Some ((Some d, None), k + 1, sleeps')))
     else Some ((None, lastErr), k, sleeps))"

definition fetchWithRetry ::
  "(nat \<Rightarrow> 'd outcome) \<Rightarrow> 64 word \<Rightarrow>
   (('d option \<times> fetch_error option) \<times> nat \<times> 64 word list) option" where
  "fetchWithRetry env MaxRetries = fetch_loop env MaxRetries 0 None 0 []"

text \<open>An upstream that is down: every request fails in transport.\<close>

definition env_down :: "nat \<Rightarrow> unit outcome" where
  "env_down k = GetError ''connection refused''"

text \<open>An upstream that recovers: the first two requests fail in transport, the later ones succeed.\<close>

definition env_recovers :: "nat \<Rightarrow> unit outcome" where
  "env_recovers k = (if k < 2 then GetError ''connection refused'' else Response 200 (Inr ()))"

declare fetch_loop.simps [code]

text \<open>The sleeps of the attempts numbered \<open>a\<close> to \<open>k - 1\<close>: attempt 0 sleeps nothing.\<close>

definition backoffs :: "nat \<Rightarrow> nat \<Rightarrow> 64 word list" where
  "backoffs a k = map (\<lambda>j. backoffDuration (of_nat j)) (filter (\<lambda>j. 0 < j) [a..<k])"

section \<open>Change detector (package adsb, unnamed/part_004: DetectChanges, hasAnyChanges)\<close>

text \<open>
  Modelled from the spec: the declarations of \<^verbatim>\<open>Aircraft\<close> and \<^verbatim>\<open>ADSBTarget\<close> are not among
  the sources. The records have the fields that \<^verbatim>\<open>hasAnyChanges\<close> compares, the spec's
  "last observed kinematics" and derived data: the kinematic values and the distance
  are float64, \<^verbatim>\<open>ADSB\<close> and \<^verbatim>\<open>Distance\<close> are pointers that may be nil (\<open>None\<close>),
  \<^verbatim>\<open>LastSeen\<close> is an instant (\<^verbatim>\<open>time.Time\<close>, compared with \<^verbatim>\<open>Equal\<close>), and the phase data
  is a type parameter on which \<^verbatim>\<open>reflect.DeepEqual\<close> is equality of values. The field
  \<^verbatim>\<open>Hex\<close> of \<^verbatim>\<open>AircraftChange\<close> is \<open>ChangeHex\<close>.
\<close>

record ADSBTarget =
  Lat :: f64
  Lon :: f64
  AltBaro :: f64
  Track :: f64
  GS :: f64
  TAS :: f64
  BaroRate :: f64
  MagHeading :: f64
  TrueHeading :: f64

record 'p Aircraft =
  Hex :: string
  ADSB :: "ADSBTarget option"
  Flight :: string
  Status :: string
  OnGround :: bool
  Phase :: 'p
  Distance :: "f64 option"
  LastSeen :: int

record 'p AircraftChange =
  Type :: string
  Aircraft :: "'p Aircraft option"
  ChangeHex :: string

text \<open>
  A Go \<^verbatim>\<open>map[string]*Aircraft\<close> is a list of key-value pairs with distinct keys.
  \<^verbatim>\<open>m[k] = v\<close> is \<open>AList.update k v m\<close>, a lookup is \<open>map_of m k\<close>, and \<^verbatim>\<open>range m\<close> visits
  the pairs in the order of the list: Go leaves that order open, so the order of the
  changes in the model is one of those the program can produce. The detector keeps
  the pointers of the list it is given; the model keeps the values, that is, the
  aircraft are read as they are at the call.
\<close>

record 'p ChangeDetector =
  previousAircraft :: "(string \<times> 'p Aircraft) list"

definition NewChangeDetector :: "'p ChangeDetector" where
  "NewChangeDetector = \<lparr> previousAircraft = [] \<rparr>"

definition hasAnyChanges :: "'p Aircraft \<Rightarrow> 'p Aircraft \<Rightarrow> bool" where
  "hasAnyChanges previous current =
    (let adsb_changed =
       (case (ADSB previous, ADSB current) of
          (Some p, Some c) \<Rightarrow>
            (if f_ne (Lat p) (Lat c) \<or> f_ne (Lon p) (Lon c) then True
             else if f_ne (AltBaro p) (AltBaro c) then True
             else if f_ne (Track p) (Track c) then True
             else if f_ne (GS p) (GS c) then True
             else if f_ne (TAS p) (TAS c) then True
             else if f_ne (BaroRate p) (BaroRate c) then True
             else if f_ne (MagHeading p) (MagHeading c) then True
             else if f_ne (TrueHeading p) (TrueHeading c) then True
             else False)
        | (p, c) \<Rightarrow> (p = None) \<noteq> (c = None))
     in if adsb_changed then True
        else if Flight previous \<noteq> Flight current then True
        else if Status previous \<noteq> Status current then True
        else if OnGround previous \<noteq> OnGround current then True
        else if \<not> (Phase previous = Phase current) then True
        else if (Distance previous = None) \<noteq> (Distance current = None)
                \<or> (case (Distance previous, Distance current) of
                      (Some dp, Some dc) \<Rightarrow> f_ne dp dc
                    | _ \<Rightarrow> False)
          then True
        else if \<not> (LastSeen previous = LastSeen current) then True
        else False)"

text \<open>The first loop of \<^verbatim>\<open>DetectChanges\<close>: the map of the current aircraft by hex.\<close>

definition build_currentMap :: "'p Aircraft list \<Rightarrow> (string \<times> 'p Aircraft) list" where
  "build_currentMap currentAircraft =
     fold (\<lambda>aircraft m. AList.update (Hex aircraft) aircraft m) currentAircraft []"

text \<open>The body of the second loop, for one pair of the current map.\<close>

definition new_or_updated ::
  "(string \<times> 'p Aircraft) list \<Rightarrow> string \<times> 'p Aircraft \<Rightarrow> 'p AircraftChange list" where
  "new_or_updated previousMap kv =
    (case kv of (hex, current) \<Rightarrow>
       (case map_of previousMap hex of
          Some previous \<Rightarrow>
            if hasAnyChanges previous current
            then [\<lparr> Type = ''updated'', Aircraft = Some current, ChangeHex = hex \<rparr>]
            else []
        | None \<Rightarrow> [\<lparr> Type = ''added'', Aircraft = Some current, ChangeHex = hex \<rparr>]))"

text \<open>The body of the third loop, for one key of the previous map.\<close>

definition removed_entry ::
  "(string \<times> 'p Aircraft) list \<Rightarrow> string \<times> 'p Aircraft \<Rightarrow> 'p AircraftChange list" where
  "removed_entry currentMap kv =
    (case map_of currentMap (fst kv) of
       None \<Rightarrow> [\<lparr> Type = ''removed'', Aircraft = None, ChangeHex = fst kv \<rparr>]
     | Some _ \<Rightarrow> [])"

text \<open>\<^verbatim>\<open>DetectChanges\<close>: the changes and the detector with the current map as its previous one.\<close>

definition DetectChanges ::
  "'p ChangeDetector \<Rightarrow> 'p Aircraft list \<Rightarrow> 'p AircraftChange list \<times> 'p ChangeDetector" where
  "DetectChanges cd currentAircraft =
    (let currentMap = build_currentMap currentAircraft;
         changes = concat (map (new_or_updated (previousAircraft cd)) currentMap);
         changes = changes @ concat (map (removed_entry currentMap) (previousAircraft cd))
     in (changes, cd\<lparr>previousAircraft := currentMap\<rparr>))"

text \<open>
  The float64 values that \<^verbatim>\<open>hasAnyChanges\<close> compares with \<^verbatim>\<open>!=\<close>, and the aircraft none
  of whose compared values is NaN.
\<close>

definition compared_floats :: "'p Aircraft \<Rightarrow> f64 list" where
  "compared_floats a =
     (case ADSB a of
        None \<Rightarrow> []
      | Some t \<Rightarrow> [Lat t, Lon t, AltBaro t, Track t, GS t, TAS t, BaroRate t,
                   MagHeading t, TrueHeading t])
     @ (case Distance a of None \<Rightarrow> [] | Some d \<Rightarrow> [d])"

definition NaN_free :: "'p Aircraft \<Rightarrow> bool" where
  "NaN_free a = (NaN \<notin> set (compared_floats a))"

text \<open>Two aircraft to evaluate the detector on; the second has lost its latitude.\<close>

definition adsb0 :: ADSBTarget where
  "adsb0 = \<lparr> Lat = Finite 43, Lon = Finite (-79), AltBaro = Finite 11000, Track = Finite 90,
             GS = Finite 310, TAS = Finite 300, BaroRate = Finite 0, MagHeading = Finite 95,
             TrueHeading = Finite 90 \<rparr>"

definition aircraft0 :: "unit Aircraft" where
  "aircraft0 = \<lparr> Hex = ''c01234'', ADSB = Some adsb0, Flight = ''ACA123'', Status = ''active'',
                 OnGround = False, Phase = (), Distance = Some (Finite 12), LastSeen = 1000 \<rparr>"

definition aircraft_nan :: "unit Aircraft" where
  "aircraft_nan = aircraft0 \<lparr> ADSB := Some (adsb0 \<lparr> Lat := NaN \<rparr>) \<rparr>"

section \<open>Multi-fanout buffer (internal/audio/multireader.go)\<close>

text \<open>
  The state that \<^verbatim>\<open>MultiReader\<close> guards with its mutex. The condition variables, the
  context and the logger carry no data and are left out; what a blocked \<^verbatim>\<open>Read\<close> meets
  when its wait ends is an argument of \<open>Read\<close> below. Indices are natural numbers: the
  source never subtracts below zero on states with \<open>readIndex \<le> bufferSize\<close>, and the
  other states are a branch of the copy loop.
\<close>

record readerState =
  readIndex :: nat
  closed :: bool

record MultiReader =
  buffer :: "byte list"
  bufferSize :: nat
  writeIndex :: nat
  readers :: "string \<Rightarrow> readerState option"
  mr_closed :: bool


text \<open>The loop of \<^verbatim>\<open>Write\<close>: one byte stored at the write index, which then advances.\<close>

fun write_bytes :: "byte list \<Rightarrow> MultiReader \<Rightarrow> MultiReader" where
  "write_bytes [] mr = mr"
| "write_bytes (b # p) mr =
     write_bytes p (mr\<lparr> buffer := (buffer mr)[writeIndex mr := b],
                         writeIndex := (writeIndex mr + 1) mod bufferSize mr \<rparr>)"

definition Write :: "MultiReader \<Rightarrow> byte list \<Rightarrow> (nat \<times> go_error option) \<times> MultiReader" where
  "Write mr p =
     (if mr_closed mr then ((0, Some ErrClosedPipe), mr)
      else ((length p, None), write_bytes p mr))"

text \<open>
  \<^verbatim>\<open>CreateReader\<close>. The client it returns is the pair of the shared \<^verbatim>\<open>MultiReader\<close> and the
  id, so the model returns the new state; the id is the handle.
\<close>

definition CreateReader :: "MultiReader \<Rightarrow> string \<Rightarrow> MultiReader" where
  "CreateReader mr rid =
     (case readers mr rid of
        Some st \<Rightarrow>
          if \<not> closed st then mr
          else mr\<lparr> readers := ((readers mr)(rid := None))
                        (rid \<mapsto> \<lparr> readIndex = writeIndex mr, closed = False \<rparr>) \<rparr>
      | None \<Rightarrow> mr\<lparr> readers := (readers mr)(rid \<mapsto> \<lparr> readIndex = writeIndex mr, closed = False \<rparr>) \<rparr>)"

definition RemoveReader :: "MultiReader \<Rightarrow> string \<Rightarrow> MultiReader" where
  "RemoveReader mr rid =
     (case readers mr rid of
        Some st \<Rightarrow> mr\<lparr> readers := (readers mr)(rid := None) \<rparr>
      | None \<Rightarrow> mr)"

text \<open>\<^verbatim>\<open>Close\<close>: the buffer is closed and the map of readers is replaced by an empty one.\<close>

definition Close :: "MultiReader \<Rightarrow> MultiReader" where
  "Close mr = (if mr_closed mr then mr else mr\<lparr> mr_closed := True, readers := Map.empty \<rparr>)"

text \<open>
  The copy loop of \<^verbatim>\<open>Read\<close>, chunk by chunk up to the end of the ring. The result is
  the bytes copied and the final read index. Go panics where a slice bound is
  negative or beyond the buffer and where \<^verbatim>\<open>% bufferSize\<close> divides by zero.
\<close>

function copy_loop ::
  "byte list \<Rightarrow> nat \<Rightarrow> nat \<Rightarrow> nat \<Rightarrow> nat \<Rightarrow> byte list \<Rightarrow> go_error + (byte list \<times> nat)" where
  "copy_loop buf bufSize rIndex available copied out =
    (if copied < available then
       (let chunk = available - copied;
            over = (rIndex + chunk > bufSize)
        in if over \<and> bufSize < rIndex then Inl (ErrOther ''panic: slice bounds out of range'')
           else
             (let chunkSize = (if over then bufSize - rIndex else chunk)
              in if length buf < rIndex + chunkSize
                   then Inl (ErrOther ''panic: slice bounds out of range'')
                 else if bufSize = 0 then Inl (ErrOther ''panic: integer divide by zero'')
                 else copy_loop buf bufSize ((rIndex + chunkSize) mod bufSize) available
                        (copied + chunkSize) (out @ slice rIndex (rIndex + chunkSize) buf)))
     else Inr (out, rIndex))"
  by pat_completeness auto
termination
  by (relation "measure (\<lambda>(buf, bufSize, rIndex, available, copied, out).
          2 * (available - copied) + (if rIndex = bufSize then 1 else 0))")
     (auto split: if_splits)

text \<open>
  How the wait of a blocked \<^verbatim>\<open>Read\<close> ends: the 30 second timer, the cancelled context,
  or a signal, after which the shared state is what the other goroutines have made
  of it in the meantime.
\<close>

datatype wake = TimedOut | Cancelled | Signalled MultiReader

text \<open>
  The part of \<^verbatim>\<open>Read\<close> after the wait: the available count from the two indices, capped
  by \<open>n = len(p)\<close>, the copy, and the update of the reader's index. \<open>bufSize\<close> is the
  local \<^verbatim>\<open>bufferSize\<close> that \<^verbatim>\<open>Read\<close> has taken before the wait.
\<close>

definition read_available ::
  "MultiReader \<Rightarrow> string \<Rightarrow> nat \<Rightarrow> nat \<Rightarrow> nat \<Rightarrow> nat \<Rightarrow>
   (byte list \<times> go_error option) \<times> MultiReader" where
  "read_available mr rid n bufSize rIndex wIndex =
    (let available = (if wIndex > rIndex then wIndex - rIndex
                      else bufSize - rIndex + wIndex);
         available = (if available > n then n else available)
     in case copy_loop (buffer mr) bufSize rIndex available 0 [] of
          Inl e \<Rightarrow> (([], Some e), mr)
        | Inr (out, rIndex') \<Rightarrow>
            ((out, None),
             (case readers mr rid of
                Some st \<Rightarrow>
                  if \<not> closed st
                  then mr\<lparr> readers := (readers mr)(rid \<mapsto> st\<lparr> readIndex := rIndex' \<rparr>) \<rparr>
                  else mr
              | None \<Rightarrow> mr)))"

text \<open>
  \<^verbatim>\<open>multiReaderClient.Read\<close> with a destination of \<open>n\<close> bytes. It returns the bytes
  copied (their number is the count the source returns), the error, and the state.
\<close>

definition Read ::
  "MultiReader \<Rightarrow> string \<Rightarrow> nat \<Rightarrow> wake \<Rightarrow> (byte list \<times> go_error option) \<times> MultiReader" where
  "Read mr rid n wk =
    (case readers mr rid of
       None \<Rightarrow> (([], Some ErrEOF), mr)
     | Some st \<Rightarrow>
         if closed st \<or> mr_closed mr then (([], Some ErrEOF), mr)
         else if readIndex st = writeIndex mr then
           (case wk of
              TimedOut \<Rightarrow> (([], Some ErrEOF), mr)
            | Cancelled \<Rightarrow> (([], Some ErrEOF), mr)
            | Signalled mr' \<Rightarrow>
                (case readers mr' rid of
                   None \<Rightarrow> (([], Some ErrEOF), mr')
                 | Some st' \<Rightarrow>
                     if closed st' \<or> mr_closed mr' then (([], Some ErrEOF), mr')
                     else read_available mr' rid n (bufferSize mr)
                            (readIndex st') (writeIndex mr')))
         else read_available mr rid n (bufferSize mr) (readIndex st) (writeIndex mr))"

text \<open>
  The states the theorems are about: the ring has \<open>bufferSize\<close> bytes and the write
  index is inside it. \<^verbatim>\<open>NewMultiReader\<close> gives such a state and every operation keeps it so.
\<close>

definition wf_buffer :: "MultiReader \<Rightarrow> bool" where
  "wf_buffer mr =
     (0 < bufferSize mr \<and> length (buffer mr) = bufferSize mr \<and> writeIndex mr < bufferSize mr)"



text \<open>
  A run of one listener against the writer. A \<^verbatim>\<open>Read\<close> that does not wait is one
  step of a run: the source gives up the lock between taking the indices, copying and
  storing the new index, and a run has each write before or after these. \<open>DoWrite p\<close>
  is \<^verbatim>\<open>Write(p)\<close>. \<open>DoRead n ps\<close> is a \<^verbatim>\<open>Read\<close> into \<open>n\<close> bytes. If it finds the read index
  at the write index it waits, and \<open>ps\<close> are the writes made from then until it looks at
  the state again: none when the wait ends by the timer, one or more when it ends by
  a signal. Which of these writes gave the signal does not matter, and a write whose
  signal does not reach this \<^verbatim>\<open>Read\<close> (the waiting goroutine of an earlier \<^verbatim>\<open>Read\<close> that
  timed out takes it) is a \<open>DoWrite\<close> after a \<open>DoRead\<close> that timed out. If the \<^verbatim>\<open>Read\<close>
  does not wait, the writes \<open>ps\<close> follow it. \<open>run\<close> returns the bytes written, in order,
  and what each \<^verbatim>\<open>Read\<close> returned.
\<close>

datatype fan_op = DoWrite "byte list" | DoRead nat "byte list list"

fun write_all :: "byte list list \<Rightarrow> MultiReader \<Rightarrow> byte list \<times> MultiReader" where
  "write_all [] mr = ([], mr)"
| "write_all (p # ps) mr =
     (case Write mr p of
        ((n, err), mr') \<Rightarrow>
          (case write_all ps mr' of (written, mr'') \<Rightarrow> (take n p @ written, mr'')))"

definition waits :: "MultiReader \<Rightarrow> string \<Rightarrow> bool" where
  "waits mr rid =
     (case readers mr rid of
        None \<Rightarrow> False
      | Some st \<Rightarrow> \<not> closed st \<and> \<not> mr_closed mr \<and> readIndex st = writeIndex mr)"

fun run :: "MultiReader \<Rightarrow> string \<Rightarrow> fan_op list \<Rightarrow> byte list \<times> byte list list" where
  "run mr rid [] = ([], [])"
| "run mr rid (DoWrite p # ops) =
     (case Write mr p of
        ((n, err), mr') \<Rightarrow>
          (case run mr' rid ops of (written, outs) \<Rightarrow> (take n p @ written, outs)))"
| "run mr rid (DoRead n ps # ops) =
     (if waits mr rid \<and> ps \<noteq> []
      then (case write_all ps mr of
              (w, mr_w) \<Rightarrow>
                (case Read mr rid n (Signalled mr_w) of
                   ((out, err), mr') \<Rightarrow>
                     (case run mr' rid ops of (written, outs) \<Rightarrow> (w @ written, out # outs))))
      else (case Read mr rid n TimedOut of
              ((out, err), mr') \<Rightarrow>
                (case write_all ps mr' of
                   (w, mr'') \<Rightarrow>
                     (case run mr'' rid ops of (written, outs) \<Rightarrow> (w @ written, out # outs)))))"

text \<open>
  The runs in which no wait ends on nothing: the writes that end a wait have put at
  least one byte into the ring, or a full ring had been written before. \<open>sofar\<close> counts
  the bytes written so far.
\<close>

fun wakes_carry_data :: "nat \<Rightarrow> nat \<Rightarrow> fan_op list \<Rightarrow> bool" where
  "wakes_carry_data bufSize sofar [] = True"
| "wakes_carry_data bufSize sofar (DoWrite p # ops) =
     wakes_carry_data bufSize (sofar + length p) ops"
| "wakes_carry_data bufSize sofar (DoRead n ps # ops) =
     ((ps = [] \<or> concat ps \<noteq> [] \<or> bufSize \<le> sofar) \<and>
      wakes_carry_data bufSize (sofar + length (concat ps)) ops)"



definition mr8 :: MultiReader where
  "mr8 = \<lparr> buffer = [1, 2, 3, 4, 5, 6, 0, 0], bufferSize = 8, writeIndex = 6,
           readers = Map.empty, mr_closed = False \<rparr>"


section \<open>Transcription post-processor (internal/transcription/models.go)\<close>

text \<open>
  The rows of the two tables and the value the language model exchanges. Field
  names are prefixed where two structs of the source share one: \<open>b_\<close> for
  \<^verbatim>\<open>TranscriptionBatch\<close>, \<open>x_\<close> for \<^verbatim>\<open>sqlite.ExtractedClearance\<close>, \<open>c_\<close> for
  \<^verbatim>\<open>sqlite.ClearanceRecord\<close>. \<^verbatim>\<open>ClearanceRecord\<close> and \<^verbatim>\<open>ExtractedClearance\<close> are declared
  in unnamed/part_003. Instants are integers, in nanoseconds.
\<close>

record TranscriptionRecord =
  ID :: int
  FrequencyID :: string
  Content :: string
  ContentProcessed :: string
  SpeakerType :: string
  Callsign :: string
  IsProcessed :: bool
  CreatedAt :: int

record ExtractedClearance =
  x_Callsign :: string
  x_Type :: string
  x_Text :: string
  x_Runway :: string

record ClearanceRecord =
  c_ID :: int
  c_TranscriptionID :: int
  c_Callsign :: string
  c_ClearanceType :: string
  c_ClearanceText :: string
  c_Runway :: string
  c_Timestamp :: int
  c_Status :: string
  c_CreatedAt :: int

record TranscriptionBatch =
  b_ID :: int
  b_Content :: string
  b_ContentProcessed :: string
  b_SpeakerType :: string
  b_Callsign :: string
  b_Clearances :: "ExtractedClearance list"
  b_Timestamp :: int

subsection \<open>Storage\<close>

text \<open>
  Modelled from the spec: \<^verbatim>\<open>sqlite.TranscriptionStorage\<close> is not among the sources; only
  its calls are. The transcriptions table is the list of its rows. Per the spec's
  post-processor and persistence sections:
  \<^verbatim>\<open>GetUnprocessedTranscriptions(limit)\<close> fetches up to \<open>limit\<close> records with
  \<^verbatim>\<open>is_processed = false\<close>, oldest first; \<^verbatim>\<open>GetLastProcessedTranscriptions(frequency, limit)\<close>
  fetches the last \<open>limit\<close> already processed records of the frequency;
  \<^verbatim>\<open>UpdateProcessedTranscription(id, text, speaker, callsign)\<close> sets the three processed
  columns of the row with that id and marks it processed. Each returns an error
  or a result, as its call in the source expects; the spec names no failure of this
  store, and these three models have none.
\<close>

definition GetUnprocessedTranscriptions ::
  "TranscriptionRecord list \<Rightarrow> int \<Rightarrow> go_error + TranscriptionRecord list" where
  "GetUnprocessedTranscriptions table limit =
     Inr (take (nat limit) (sort_key CreatedAt (filter (\<lambda>r. \<not> IsProcessed r) table)))"

definition GetLastProcessedTranscriptions ::
  "TranscriptionRecord list \<Rightarrow> string \<Rightarrow> int \<Rightarrow> go_error + TranscriptionRecord list" where
  "GetLastProcessedTranscriptions table frequencyID limit =
     Inr (take (nat limit)
            (rev (sort_key CreatedAt
                    (filter (\<lambda>r. IsProcessed r \<and> FrequencyID r = frequencyID) table))))"

definition UpdateProcessedTranscription ::
  "TranscriptionRecord list \<Rightarrow> int \<Rightarrow> string \<Rightarrow> string \<Rightarrow> string \<Rightarrow>
   go_error + TranscriptionRecord list" where
  "UpdateProcessedTranscription table rowid content speaker callsign =
     Inr (map (\<lambda>r. if ID r = rowid
                     then r\<lparr> ContentProcessed := content, SpeakerType := speaker,
                             Callsign := callsign, IsProcessed := True \<rparr>
                     else r) table)"

text \<open>
  \<^verbatim>\<open>sqlite.ClearanceStorage.StoreClearance\<close>, from unnamed/part_003. It runs one
  \<^verbatim>\<open>INSERT INTO clearances\<close> through \<^verbatim>\<open>database/sql\<close> and asks the result for
  \<^verbatim>\<open>LastInsertId\<close>. The database is outside the program: \<open>insert_clearance\<close> is what
  \<^verbatim>\<open>db.Exec\<close> answers to the statement on the table as it is, an error or the row id
  that the database gives the new row (the column is \<^verbatim>\<open>INTEGER PRIMARY KEY AUTOINCREMENT\<close>)
  together with the error of \<^verbatim>\<open>LastInsertId\<close>, if it has one. The statement binds all
  columns but the id, the two instants as \<^verbatim>\<open>Format(time.RFC3339)\<close> writes them, in whole
  seconds. A row that was inserted stays in the table also when \<^verbatim>\<open>LastInsertId\<close> fails.
\<close>

definition RFC3339 :: "int \<Rightarrow> int" where
  "RFC3339 t = t - t mod 1000000000"

type_synonym insert_clearance =
  "ClearanceRecord list \<Rightarrow> ClearanceRecord \<Rightarrow> go_error + (int \<times> go_error option)"

definition StoreClearance ::
  "insert_clearance \<Rightarrow> ClearanceRecord list \<Rightarrow> ClearanceRecord \<Rightarrow>
   (go_error + int) \<times> ClearanceRecord list" where
  "StoreClearance db_Exec table rec =
     (let row = rec\<lparr> c_ID := 0, c_Timestamp := RFC3339 (c_Timestamp rec),
                      c_CreatedAt := RFC3339 (c_CreatedAt rec) \<rparr>
      in case db_Exec table row of
           Inl err \<Rightarrow> (Inl (Wrapped ''failed to insert clearance'' err), table)
         | Inr (rowid, id_err) \<Rightarrow>
             (case id_err of
                Some err \<Rightarrow> (Inl (Wrapped ''failed to get last insert ID'' err),
                             table @ [row\<lparr> c_ID := rowid \<rparr>])
              | None \<Rightarrow> (Inr rowid, table @ [row\<lparr> c_ID := rowid \<rparr>])))"

subsection \<open>The post-processor\<close>

text \<open>
  The fields of \<^verbatim>\<open>PostProcessor\<close> that \<^verbatim>\<open>processNextBatch\<close> reads, and what reaches it from
  outside during one tick: the template renderer, the language-model client
  (\<^verbatim>\<open>openaiClient.PostProcessBatch\<close>, given the system prompt, the user input and the
  model name), the JSON encoder of the batch, the clock, and the database of the
  clearance storage.
\<close>

record PostProcessor =
  batchSize :: int
  ContextTranscriptions :: int
  SystemPromptPath :: string
  Model :: string
  frequencyNames :: "string \<Rightarrow> string option"

record pp_env =
  RenderPostProcessorTemplate :: "string \<Rightarrow> go_error + string"
  PostProcessBatch :: "string \<Rightarrow> string \<Rightarrow> string \<Rightarrow> go_error + TranscriptionBatch list"
  MarshalIndent :: "TranscriptionBatch list \<Rightarrow> go_error + string"
  now :: int
  db_insert_clearance :: insert_clearance

text \<open>What a tick changes: the two tables and the messages broadcast to the WebSocket clients.\<close>

datatype ws_message = clearance_issued ClearanceRecord | transcription_update TranscriptionRecord

record pp_state =
  transcriptions :: "TranscriptionRecord list"
  clearances :: "ClearanceRecord list"
  broadcasts :: "ws_message list"

definition getFrequencyName :: "PostProcessor \<Rightarrow> string \<Rightarrow> string" where
  "getFrequencyName p frequencyID =
     (case frequencyNames p frequencyID of Some name \<Rightarrow> name | None \<Rightarrow> frequencyID)"

definition context_entry :: "TranscriptionRecord \<Rightarrow> TranscriptionBatch" where
  "context_entry r =
     \<lparr> b_ID = ID r, b_Content = Content r, b_ContentProcessed = ContentProcessed r,
       b_SpeakerType = SpeakerType r, b_Callsign = Callsign r, b_Clearances = [],
       b_Timestamp = CreatedAt r \<rparr>"

definition unprocessed_entry :: "TranscriptionRecord \<Rightarrow> TranscriptionBatch" where
  "unprocessed_entry r =
     \<lparr> b_ID = ID r, b_Content = Content r, b_ContentProcessed = [],
       b_SpeakerType = [], b_Callsign = [], b_Clearances = [],
       b_Timestamp = CreatedAt r \<rparr>"

text \<open>
  \<^verbatim>\<open>sortBatchByTimestamp\<close>: \<^verbatim>\<open>sort.Slice\<close> by timestamp, oldest first. Go leaves the order
  of entries with equal timestamps open; the model keeps them in their order.
\<close>

definition sortBatchByTimestamp :: "TranscriptionBatch list \<Rightarrow> TranscriptionBatch list" where
  "sortBatchByTimestamp batch = sort_key b_Timestamp batch"

text \<open>
  The loop that every failure path runs: each record of the batch is written with
  the sentinel text, speaker \<^verbatim>\<open>UNKNOWN\<close> and an empty callsign. A failed update is
  logged and the loop goes on.
\<close>

fun mark_failed ::
  "string \<Rightarrow> TranscriptionRecord list \<Rightarrow> TranscriptionRecord list \<Rightarrow> TranscriptionRecord list" where
  "mark_failed sentinel [] table = table"
| "mark_failed sentinel (record # records) table =
     (case UpdateProcessedTranscription table (ID record) sentinel ''UNKNOWN'' [] of
        Inl updateErr \<Rightarrow> mark_failed sentinel records table
      | Inr table' \<Rightarrow> mark_failed sentinel records table')"

text \<open>The inner loop over the clearances of one result.\<close>

fun store_clearances ::
  "pp_env \<Rightarrow> TranscriptionBatch \<Rightarrow> ExtractedClearance list \<Rightarrow> pp_state \<Rightarrow> pp_state" where
  "store_clearances env result [] st = st"
| "store_clearances env result (clearance # cs) st =
     (let clearanceRecord =
            \<lparr> c_ID = 0, c_TranscriptionID = b_ID result, c_Callsign = x_Callsign clearance,
              c_ClearanceType = x_Type clearance, c_ClearanceText = x_Text clearance,
              c_Runway = x_Runway clearance, c_Timestamp = b_Timestamp result,
              c_Status = ''issued'', c_CreatedAt = now env \<rparr>
      in case StoreClearance (db_insert_clearance env) (clearances st) clearanceRecord of
           (Inl err, table') \<Rightarrow> store_clearances env result cs (st\<lparr> clearances := table' \<rparr>)
         | (Inr clearanceID, table') \<Rightarrow>
             store_clearances env result cs
               (st\<lparr> clearances := table',
                    broadcasts := broadcasts st
                       @ [clearance_issued (clearanceRecord\<lparr> c_ID := clearanceID \<rparr>)] \<rparr>))"

text \<open>The loop over the results of the language model.\<close>

fun apply_results ::
  "pp_env \<Rightarrow> TranscriptionRecord list \<Rightarrow> TranscriptionRecord list \<Rightarrow> TranscriptionBatch list \<Rightarrow>
   pp_state \<Rightarrow> pp_state" where
  "apply_results env records contextRecords [] st = st"
| "apply_results env records contextRecords (result # results) st =
     (if b_ContentProcessed result = [] then apply_results env records contextRecords results st
      else if b_ID result \<in> set (map ID contextRecords)
        then apply_results env records contextRecords results st
      else
        (case UpdateProcessedTranscription (transcriptions st) (b_ID result)
                (b_ContentProcessed result) (b_SpeakerType result) (b_Callsign result) of
           Inl err \<Rightarrow> apply_results env records contextRecords results st
         | Inr table' \<Rightarrow>
             (let st1 = st\<lparr> transcriptions := table' \<rparr>;
                  st2 = (if b_SpeakerType result = ''ATC'' \<and> length (b_Clearances result) > 0
                         then store_clearances env result (b_Clearances result) st1
                         else st1)
              in case find (\<lambda>r. ID r = b_ID result) records of
                   None \<Rightarrow> apply_results env records contextRecords results st2
                 | Some record \<Rightarrow>
                     apply_results env records contextRecords results
                       (st2\<lparr> broadcasts := broadcasts st2
                          @ [transcription_update
                               (record\<lparr> ContentProcessed := b_ContentProcessed result,
                                        SpeakerType := b_SpeakerType result,
                                        Callsign := b_Callsign result,
                                        IsProcessed := True \<rparr>)] \<rparr>))))"

text \<open>
  The first part of \<^verbatim>\<open>processNextBatch\<close>, up to the encoded batch: the unprocessed
  records, the context records, the frequency name and the JSON text. \<open>Inl\<close> is an
  early return: with an error, or with nil when there is nothing to process.
\<close>

definition prepare_batch ::
  "PostProcessor \<Rightarrow> pp_env \<Rightarrow> pp_state \<Rightarrow>
   go_error option + (TranscriptionRecord list \<times> TranscriptionRecord list \<times> string \<times> string)" where
  "prepare_batch p env st =
    (case GetUnprocessedTranscriptions (transcriptions st) (batchSize p) of
       Inl err \<Rightarrow> Inl (Some (Wrapped ''failed to get unprocessed transcriptions'' err))
     | Inr records \<Rightarrow>
         if length records = 0 then Inl None
         else
           (let frequencyID = FrequencyID (hd records);
                frequencyName = getFrequencyName p frequencyID;
                contextRecords =
                  (if frequencyID \<noteq> [] \<and> ContextTranscriptions p > 0
                   then (case GetLastProcessedTranscriptions (transcriptions st) frequencyID
                                 (ContextTranscriptions p) of
                           Inl err \<Rightarrow> []
                         | Inr rs \<Rightarrow> rs)
                   else []);
                batch = sortBatchByTimestamp
                          (map context_entry contextRecords @ map unprocessed_entry records)
            in case MarshalIndent env batch of
                 Inl err \<Rightarrow> Inl (Some (Wrapped ''failed to marshal transcription batch'' err))
               | Inr batchJSON \<Rightarrow> Inr (records, contextRecords, frequencyName, batchJSON)))"

text \<open>
  The user input, \<^verbatim>\<open>fmt.Sprintf("Radio Frequency:\\n%s\\n\\nTransmissions Log:\\n%s", ...)\<close>, and
  \<^verbatim>\<open>processBatch\<close>, which wraps the error of the language-model client.
\<close>

definition user_input :: "string \<Rightarrow> string \<Rightarrow> string" where
  "user_input frequencyName batchJSON =
     ''Radio Frequency:'' @ [CHR 0x0A] @ frequencyName @ [CHR 0x0A, CHR 0x0A]
       @ ''Transmissions Log:'' @ [CHR 0x0A] @ batchJSON"

definition processBatch ::
  "PostProcessor \<Rightarrow> pp_env \<Rightarrow> string \<Rightarrow> string \<Rightarrow> go_error + TranscriptionBatch list" where
  "processBatch p env systemPrompt userInput =
     (case PostProcessBatch env systemPrompt userInput (Model p) of
        Inl err \<Rightarrow> Inl (Wrapped ''failed to post-process batch'' err)
      | Inr results \<Rightarrow> Inr results)"

text \<open>\<^verbatim>\<open>processNextBatch\<close>: the returned error (\<open>None\<close> for nil) and the new state.\<close>

definition processNextBatch ::
  "PostProcessor \<Rightarrow> pp_env \<Rightarrow> pp_state \<Rightarrow> go_error option \<times> pp_state" where
  "processNextBatch p env st =
    (case prepare_batch p env st of
       Inl early \<Rightarrow> (early, st)
     | Inr (records, contextRecords, frequencyName, batchJSON) \<Rightarrow>
         (case RenderPostProcessorTemplate env (SystemPromptPath p) of
            Inl err \<Rightarrow>
              (Some err,
               st\<lparr> transcriptions :=
                     mark_failed ''[TEMPLATE_RENDER_FAILED]'' records (transcriptions st) \<rparr>)
          | Inr systemPrompt \<Rightarrow>
              (let userInput = user_input frequencyName batchJSON
               in case processBatch p env systemPrompt userInput of
                    Inl err \<Rightarrow>
                      (Some err,
                       st\<lparr> transcriptions :=
                             mark_failed ''[PROCESSING_FAILED]'' records (transcriptions st) \<rparr>)
                  | Inr results \<Rightarrow>
                      if length results = 0
                      then (None,
                            st\<lparr> transcriptions :=
                                  mark_failed ''[NO_RESULTS_FROM_API]'' records
                                    (transcriptions st) \<rparr>)
                      else (None, apply_results env records contextRecords results st))))"

text \<open>
  What the sentinel write leaves in the table: every record of the batch still has
  its row, and every row with the id of a record of the batch is marked processed,
  with the sentinel as processed text and speaker \<^verbatim>\<open>UNKNOWN\<close>.
\<close>

definition batch_marked ::
  "string \<Rightarrow> TranscriptionRecord list \<Rightarrow> TranscriptionRecord list \<Rightarrow> bool" where
  "batch_marked sentinel records table =
     (set (map ID records) \<subseteq> set (map ID table) \<and>
      (\<forall>row \<in> set table. ID row \<in> set (map ID records) \<longrightarrow>
         IsProcessed row \<and> ContentProcessed row = sentinel \<and> SpeakerType row = ''UNKNOWN''))"

text \<open>No record of the batch is among those a later fetch of up to \<open>limit\<close> unprocessed records returns.\<close>

definition not_fetched_again ::
  "int \<Rightarrow> TranscriptionRecord list \<Rightarrow> TranscriptionRecord list \<Rightarrow> bool" where
  "not_fetched_again limit records table =
     (case GetUnprocessedTranscriptions table limit of
        Inl err \<Rightarrow> True
      | Inr next \<Rightarrow> set (map ID next) \<inter> set (map ID records) = {})"

text \<open>
  A table of two unprocessed transmissions, a post-processor, and three
  environments: the template does not render; the language model answers HTTP 500;
  the language model returns an empty list.
\<close>

definition table0 :: "TranscriptionRecord list" where
  "table0 =
     [\<lparr> ID = 1, FrequencyID = ''twr'', Content = ''air canada one two three cleared to land'',
        ContentProcessed = [], SpeakerType = [], Callsign = [], IsProcessed = False,
        CreatedAt = 100 \<rparr>,
      \<lparr> ID = 2, FrequencyID = ''twr'', Content = ''cleared to land air canada one two three'',
        ContentProcessed = [], SpeakerType = [], Callsign = [], IsProcessed = False,
        CreatedAt = 105 \<rparr>]"

definition state0 :: pp_state where
  "state0 = \<lparr> transcriptions = table0, clearances = [], broadcasts = [] \<rparr>"

definition processor0 :: PostProcessor where
  "processor0 = \<lparr> batchSize = 10, ContextTranscriptions = 3, SystemPromptPath = ''prompt.tmpl'',
                  Model = ''model'', frequencyNames = Map.empty \<rparr>"

definition env_render_fails :: pp_env where
  "env_render_fails =
     \<lparr> RenderPostProcessorTemplate = (\<lambda>path. Inl (ErrOther ''template not found'')),
       PostProcessBatch = (\<lambda>systemPrompt userInput m. Inr []),
       MarshalIndent = (\<lambda>batch. Inr ''[]''),
       now = 200,
       db_insert_clearance = (\<lambda>table row. Inr (int (length table) + 1, None)) \<rparr>"

definition env_http_500 :: pp_env where
  "env_http_500 =
     \<lparr> RenderPostProcessorTemplate = (\<lambda>path. Inr ''system prompt''),
       PostProcessBatch = (\<lambda>systemPrompt userInput m. Inl (ErrOther ''status 500'')),
       MarshalIndent = (\<lambda>batch. Inr ''[]''),
       now = 200,
       db_insert_clearance = (\<lambda>table row. Inr (int (length table) + 1, None)) \<rparr>"

definition env_no_results :: pp_env where
  "env_no_results =
     \<lparr> RenderPostProcessorTemplate = (\<lambda>path. Inr ''system prompt''),
       PostProcessBatch = (\<lambda>systemPrompt userInput m. Inr []),
       MarshalIndent = (\<lambda>batch. Inr ''[]''),
       now = 200,
       db_insert_clearance = (\<lambda>table row. Inr (int (length table) + 1, None)) \<rparr>"

definition failed_row :: "TranscriptionRecord \<Rightarrow> string \<Rightarrow> TranscriptionRecord" where
  "failed_row r sentinel =
     r\<lparr> ContentProcessed := sentinel, SpeakerType := ''UNKNOWN'', Callsign := [],
        IsProcessed := True \<rparr>"

section \<open>Position prediction (PredictFuturePositions, Haversine, Bearing, in internal/adsb/client.go)\<close>

text \<open>
  The functions of this section compute with float64 arithmetic and with the math
  package. Their models take the operations as a record \<open>ops\<close> and are, for the
  rest, the source statement by statement, each Go expression with its own
  association: \<^verbatim>\<open>trueHeading * math.Pi / 180.0\<close> is a multiplication followed by a
  division. \<open>op_lit\<close> is the conversion of a constant of the source that float64 does
  not hold exactly (\<^verbatim>\<open>math.Pi\<close>, \<^verbatim>\<open>1.852\<close>, the default station) to float64; the
  constants that float64 holds exactly (111, 180, 0.25, ...) are written as such. The
  models are of the evaluation that rounds after each operation.
\<close>

record float_ops =
  op_add :: "f64 \<Rightarrow> f64 \<Rightarrow> f64"
  op_sub :: "f64 \<Rightarrow> f64 \<Rightarrow> f64"
  op_mul :: "f64 \<Rightarrow> f64 \<Rightarrow> f64"
  op_div :: "f64 \<Rightarrow> f64 \<Rightarrow> f64"
  op_pow :: "f64 \<Rightarrow> f64 \<Rightarrow> f64"
  op_atan2 :: "f64 \<Rightarrow> f64 \<Rightarrow> f64"
  op_sin :: "f64 \<Rightarrow> f64"
  op_cos :: "f64 \<Rightarrow> f64"
  op_sqrt :: "f64 \<Rightarrow> f64"
  op_abs :: "f64 \<Rightarrow> f64"
  op_lit :: "real \<Rightarrow> f64"

text \<open>\<^verbatim>\<open>Haversine\<close>: \<^verbatim>\<open>rad := math.Pi / 180.0\<close> is a constant expression, converted once.\<close>

definition Haversine :: "float_ops \<Rightarrow> f64 \<Rightarrow> f64 \<Rightarrow> f64 \<Rightarrow> f64 \<Rightarrow> f64" where
  "Haversine ops lat1 lon1 lat2 lon2 =
    (let rad = op_lit ops (pi / 180);
         lat1Rad = op_mul ops lat1 rad;
         lon1Rad = op_mul ops lon1 rad;
         lat2Rad = op_mul ops lat2 rad;
         lon2Rad = op_mul ops lon2 rad;
         dlon = op_sub ops lon2Rad lon1Rad;
         dlat = op_sub ops lat2Rad lat1Rad;
         a = op_add ops
               (op_pow ops (op_sin ops (op_div ops dlat (Finite 2))) (Finite 2))
               (op_mul ops (op_mul ops (op_cos ops lat1Rad) (op_cos ops lat2Rad))
                  (op_pow ops (op_sin ops (op_div ops dlon (Finite 2))) (Finite 2)));
         c = op_mul ops (Finite 2)
               (op_atan2 ops (op_sqrt ops a) (op_sqrt ops (op_sub ops (Finite 1) a)))
     in op_mul ops (Finite 6371000) c)"

text \<open>\<^verbatim>\<open>Bearing\<close>: the initial bearing from point 1 to point 2, in degrees from 0 to 360.\<close>

definition to_radians :: "float_ops \<Rightarrow> f64 \<Rightarrow> f64" where
  "to_radians ops x = op_div ops (op_mul ops x (op_lit ops pi)) (Finite 180)"

definition Bearing :: "float_ops \<Rightarrow> f64 \<Rightarrow> f64 \<Rightarrow> f64 \<Rightarrow> f64 \<Rightarrow> f64" where
  "Bearing ops lat1_deg lon1_deg lat2_deg lon2_deg =
    (let lat1 = to_radians ops lat1_deg;
         lon1 = to_radians ops lon1_deg;
         lat2 = to_radians ops lat2_deg;
         lon2 = to_radians ops lon2_deg;
         y = op_mul ops (op_sin ops (op_sub ops lon2 lon1)) (op_cos ops lat2);
         x = op_sub ops
               (op_mul ops (op_cos ops lat1) (op_sin ops lat2))
               (op_mul ops (op_mul ops (op_sin ops lat1) (op_cos ops lat2))
                  (op_cos ops (op_sub ops lon2 lon1)));
         bearing = op_div ops (op_mul ops (op_atan2 ops y x) (Finite 180)) (op_lit ops pi)
     in if f_lt bearing (Finite 0) then op_add ops bearing (Finite 360) else bearing)"

text \<open>
  \<^verbatim>\<open>GetStationCoordinates\<close>. \<open>configInstance\<close> is the package variable of that name, a
  pointer that may be nil.
\<close>

record StationConfig =
  Latitude :: f64
  Longitude :: f64

record Config =
  Station :: StationConfig

definition GetStationCoordinates :: "float_ops \<Rightarrow> Config option \<Rightarrow> f64 \<times> f64" where
  "GetStationCoordinates ops configInstance =
    (case configInstance of
       Some cfg \<Rightarrow>
         if f_ne (Latitude (Station cfg)) (Finite 0) \<and> f_ne (Longitude (Station cfg)) (Finite 0)
         then (Latitude (Station cfg), Longitude (Station cfg))
         else (op_lit ops (436777 / 10000), op_lit ops (- (796248 / 10000)))
     | None \<Rightarrow> (op_lit ops (436777 / 10000), op_lit ops (- (796248 / 10000))))"

text \<open>
  \<^verbatim>\<open>Position\<close>: its declaration is not among the sources; the fields are those of the
  composite literal in \<^verbatim>\<open>PredictFuturePositions\<close>. A timestamp is an instant in
  nanoseconds, and \<^verbatim>\<open>time.Minute\<close> is 60 000 000 000 of them.
\<close>

record Position =
  pos_Lat :: f64
  pos_Lon :: f64
  pos_Altitude :: f64
  pos_SpeedTrue :: f64
  pos_SpeedGS :: f64
  pos_TrueHeading :: f64
  pos_MagHeading :: f64
  pos_Timestamp :: int

definition Minute :: int where
  "Minute = 60000000000"

text \<open>
  \<^verbatim>\<open>PredictFuturePositions\<close>. \<open>now_utc\<close> is the value of \<^verbatim>\<open>time.Now().UTC()\<close>. The loop
  \<^verbatim>\<open>for i := 0; i < 5; i++\<close> fills \<^verbatim>\<open>predictions[i]\<close> from values that no iteration
  changes, so it is a map over the indices 0 to 4. In the body
  \<^verbatim>\<open>adjustedSpeedKmPerMin\<close> is assigned once, from \<^verbatim>\<open>speedKmPerMin\<close>, and only
  \<^verbatim>\<open>adjustedSpeed\<close> is assigned again inside the range of the station.
\<close>

definition PredictFuturePositions ::
  "float_ops \<Rightarrow> Config option \<Rightarrow> int \<Rightarrow> f64 \<Rightarrow> f64 \<Rightarrow> f64 \<Rightarrow> f64 \<Rightarrow> f64 \<Rightarrow> f64 \<Rightarrow> f64
    \<Rightarrow> Position list" where
  "PredictFuturePositions ops configInstance now_utc lat lon altBaro trueHeading magHeading
      speedKnots verticalRateFtMin =
    (let headingRad = op_div ops (op_mul ops trueHeading (op_lit ops pi)) (Finite 180);
         speedKmPerMin = op_div ops (op_mul ops speedKnots (op_lit ops (1852 / 1000))) (Finite 60);
         latKmPerDegree = Finite 111;
         lonKmPerDegree = op_mul ops (Finite 111)
            (op_cos ops (op_div ops (op_mul ops lat (op_lit ops pi)) (Finite 180)));
         stationLat = fst (GetStationCoordinates ops configInstance);
         stationLon = snd (GetStationCoordinates ops configInstance);
         bearingToStation = Bearing ops lat lon stationLat stationLon;
         headingDiff0 = op_abs ops (op_sub ops trueHeading bearingToStation);
         headingDiff = (if f_gt headingDiff0 (Finite 180)
                        then op_sub ops (Finite 360) headingDiff0 else headingDiff0);
         approachingStation = f_lt headingDiff (Finite 90)
     in map (\<lambda>i.
          let minutesAhead = Finite (real (i + 1));
              adjustedSpeedKmPerMin = speedKmPerMin;
              latChange = op_div ops
                 (op_mul ops (op_mul ops adjustedSpeedKmPerMin minutesAhead) (op_cos ops headingRad))
                 latKmPerDegree;
              lonChange = op_div ops
                 (op_mul ops (op_mul ops adjustedSpeedKmPerMin minutesAhead) (op_sin ops headingRad))
                 lonKmPerDegree;
              newLat = op_add ops lat latChange;
              newLon = op_add ops lon lonChange;
              predictedDistanceToStationNM =
                 op_div ops (Haversine ops newLat newLon stationLat stationLon) (Finite 1852);
              adjustedSpeed =
                (if f_lt predictedDistanceToStationNM (Finite 10)
                 then (let adjustmentFactor =
                             op_div ops (op_sub ops (Finite 10) predictedDistanceToStationNM)
                               (Finite 10)
                       in if approachingStation
                          then op_mul ops speedKnots
                                 (op_sub ops (Finite 1) (op_mul ops (Finite (1 / 4)) adjustmentFactor))
                          else op_mul ops speedKnots
                                 (op_add ops (Finite 1) (op_mul ops (Finite (1 / 4)) adjustmentFactor)))
                 else speedKnots);
              newAltitude0 = op_add ops altBaro (op_mul ops verticalRateFtMin minutesAhead);
              newAltitude =
                (if approachingStation \<and> f_lt newAltitude0 (Finite 0)
                 then (if f_lt newAltitude0 (Finite (- 100)) then Finite (- 100) else newAltitude0)
                 else newAltitude0);
              timestamp = now_utc + int (i + 1) * Minute
          in \<lparr> pos_Lat = newLat, pos_Lon = newLon, pos_Altitude = newAltitude,
               pos_SpeedTrue = adjustedSpeed, pos_SpeedGS = adjustedSpeed,
               pos_TrueHeading = trueHeading, pos_MagHeading = magHeading,
               pos_Timestamp = timestamp \<rparr>) [0..<5])"

subsection \<open>What the prediction is compared with\<close>

text \<open>
  Constant-heading dead reckoning, in the words of the specification: after
  \<open>minutes\<close> minutes at \<open>speed\<close> knots on the heading \<open>heading\<close>, from the
  position \<open>(lat, lon)\<close>; a knot is 1.852 km per hour, a degree of latitude 111 km and
  a degree of longitude 111 km times the cosine of the latitude.
\<close>

definition dead_reckoning ::
  "float_ops \<Rightarrow> f64 \<Rightarrow> f64 \<Rightarrow> f64 \<Rightarrow> f64 \<Rightarrow> nat \<Rightarrow> f64 \<times> f64" where
  "dead_reckoning ops lat lon heading speed minutes =
    (let km = op_mul ops (op_div ops (op_mul ops speed (op_lit ops (1852 / 1000))) (Finite 60))
                (Finite (real minutes))
     in (op_add ops lat
           (op_div ops (op_mul ops km (op_cos ops (to_radians ops heading))) (Finite 111)),
         op_add ops lon
           (op_div ops (op_mul ops km (op_sin ops (to_radians ops heading)))
              (op_mul ops (Finite 111) (op_cos ops (to_radians ops lat))))))"

text \<open>
  The aircraft is approaching the station when its heading and the bearing from its
  position to the station differ by less than 90 degrees.
\<close>

definition approaching :: "float_ops \<Rightarrow> f64 \<times> f64 \<Rightarrow> f64 \<Rightarrow> f64 \<Rightarrow> f64 \<Rightarrow> bool" where
  "approaching ops station lat lon heading =
    (let d = op_abs ops (op_sub ops heading (Bearing ops lat lon (fst station) (snd station)))
     in f_lt (if f_gt d (Finite 180) then op_sub ops (Finite 360) d else d) (Finite 90))"

text \<open>The distance in nautical miles from a point to the station.\<close>

definition station_distance_NM :: "float_ops \<Rightarrow> f64 \<times> f64 \<Rightarrow> f64 \<times> f64 \<Rightarrow> f64" where
  "station_distance_NM ops station p =
    op_div ops (Haversine ops (fst p) (snd p) (fst station) (snd station)) (Finite 1852)"

text \<open>
  The speed scaled linearly by up to 25 per cent inside \<^verbatim>\<open>SPEED_ADJUST_RANGE_NM\<close> = 10:
  by \<open>1 - 0.25 (10 - d) / 10\<close> when approaching and \<open>1 + 0.25 (10 - d) / 10\<close> when
  departing, at the distance \<open>d\<close>; unchanged at 10 nautical miles or more, and when the
  distance is NaN.
\<close>

definition scaled_speed :: "float_ops \<Rightarrow> f64 \<Rightarrow> f64 \<Rightarrow> bool \<Rightarrow> f64" where
  "scaled_speed ops speed d toward =
    (if f_lt d (Finite 10)
     then op_mul ops speed
            ((if toward then op_sub ops else op_add ops) (Finite 1)
               (op_mul ops (Finite (1 / 4))
                  (op_div ops (op_sub ops (Finite 10) d) (Finite 10))))
     else speed)"

text \<open>The altitude after \<open>minutes\<close> minutes at the vertical rate, not below -100 when approaching.\<close>

definition predicted_altitude :: "float_ops \<Rightarrow> f64 \<Rightarrow> f64 \<Rightarrow> bool \<Rightarrow> nat \<Rightarrow> f64" where
  "predicted_altitude ops altBaro verticalRateFtMin toward minutes =
    (let h = op_add ops altBaro (op_mul ops verticalRateFtMin (Finite (real minutes)))
     in if toward \<and> f_lt h (Finite (- 100)) then Finite (- 100) else h)"

subsection \<open>Operations to evaluate the models on\<close>

text \<open>
  Arithmetic without rounding on the finite values, NaN when an argument is not
  finite, and the IEEE result of a division by 0. These are not the operations of
  float64, which round; they agree with them wherever the float64 result is exact,
  as in \<open>x - x\<close>, \<open>0 * x\<close>, \<open>sin 0\<close>, \<open>cos 0\<close> and \<open>120 * 0.75\<close>.
\<close>

fun ex_add :: "f64 \<Rightarrow> f64 \<Rightarrow> f64" where
  "ex_add (Finite a) (Finite b) = Finite (a + b)"
| "ex_add _ _ = NaN"

fun ex_sub :: "f64 \<Rightarrow> f64 \<Rightarrow> f64" where
  "ex_sub (Finite a) (Finite b) = Finite (a - b)"
| "ex_sub _ _ = NaN"

fun ex_mul :: "f64 \<Rightarrow> f64 \<Rightarrow> f64" where
  "ex_mul (Finite a) (Finite b) = Finite (a * b)"
| "ex_mul _ _ = NaN"

fun ex_div :: "f64 \<Rightarrow> f64 \<Rightarrow> f64" where
  "ex_div (Finite a) (Finite b) =
     (if b \<noteq> 0 then Finite (a / b)
      else if 0 < a then PosInf else if a < 0 then NegInf else NaN)"
| "ex_div _ _ = NaN"

fun ex_pow :: "f64 \<Rightarrow> f64 \<Rightarrow> f64" where
  "ex_pow (Finite a) (Finite b) = (if b = 2 then Finite (a * a) else NaN)"
| "ex_pow _ _ = NaN"

definition atan2_real :: "real \<Rightarrow> real \<Rightarrow> real" where
  "atan2_real y x =
    (if 0 < x then arctan (y / x)
     else if x < 0 then (if 0 \<le> y then arctan (y / x) + pi else arctan (y / x) - pi)
     else if 0 < y then pi / 2 else if y < 0 then - (pi / 2) else 0)"

fun ex_atan2 :: "f64 \<Rightarrow> f64 \<Rightarrow> f64" where
  "ex_atan2 (Finite y) (Finite x) = Finite (atan2_real y x)"
| "ex_atan2 _ _ = NaN"

fun ex_sin :: "f64 \<Rightarrow> f64" where
  "ex_sin (Finite a) = Finite (sin a)"
| "ex_sin _ = NaN"

fun ex_cos :: "f64 \<Rightarrow> f64" where
  "ex_cos (Finite a) = Finite (cos a)"
| "ex_cos _ = NaN"

fun ex_sqrt :: "f64 \<Rightarrow> f64" where
  "ex_sqrt (Finite a) = (if a < 0 then NaN else Finite (sqrt a))"
| "ex_sqrt _ = NaN"

fun ex_abs :: "f64 \<Rightarrow> f64" where
  "ex_abs (Finite a) = Finite \<bar>a\<bar>"
| "ex_abs NaN = NaN"
| "ex_abs _ = PosInf"

definition exact_ops :: float_ops where
  "exact_ops = \<lparr> op_add = ex_add, op_sub = ex_sub, op_mul = ex_mul, op_div = ex_div,
                 op_pow = ex_pow, op_atan2 = ex_atan2, op_sin = ex_sin, op_cos = ex_cos,
                 op_sqrt = ex_sqrt, op_abs = ex_abs, op_lit = Finite \<rparr>"

text \<open>
  A station that lies where an aircraft is after one minute northwards at 120 knots
  from latitude 0, longitude 1.
\<close>

definition config_north :: "Config option" where
  "config_north = Some \<lparr> Station = \<lparr> Latitude = Finite (463 / 13875), Longitude = Finite 1 \<rparr> \<rparr>"

section \<open>Theorems: sensor validation\<close>

text \<open>
  C2. If the previous altitude is greater than \<^verbatim>\<open>ImpossibleAltDropThresholdFt\<close> and the
  current altitude equals 0, the altitude that \<^verbatim>\<open>ValidateSensorData\<close> returns is the
  previous altitude, whatever the other arguments are.
\<close>

theorem ValidateSensorData_impossible_alt_drop:
  assumes "f_gt prevAlt (ImpossibleAltDropThresholdFt config)"
    and "f_eq currentAlt (Finite 0)"
  shows "snd (snd (ValidateSensorData distanceNM currentTAS currentGS currentAlt
            prevTAS prevGS prevAlt aircraftLat aircraftLon stationLat stationLon
            airportRangeNM config)) = prevAlt"
  using assms by (simp add: ValidateSensorData_def Let_def)

theorem ValidateSensorData_impossible_alt_drop_witness:
  "f_gt (Finite 11000) (ImpossibleAltDropThresholdFt cfg0) \<and> f_eq (Finite 0) (Finite 0) \<and>
   snd (snd (ValidateSensorData dist0 (Finite 120) (Finite 130) (Finite 0)
        (Finite 300) (Finite 310) (Finite 11000) (Finite 43) (Finite (-79)) (Finite 43) (Finite (-79))
        (Finite 5) cfg0)) = Finite 11000"
  using ValidateSensorData_impossible_alt_drop
    [of "Finite 11000" cfg0 "Finite 0" dist0 "Finite 120" "Finite 130"
        "Finite 300" "Finite 310" "Finite 43" "Finite (-79)" "Finite 43" "Finite (-79)" "Finite 5"]
  by (simp add: cfg0_def)

text \<open>
  C3, as amended. When the current altitude, TAS and GS are all 0, the previous
  altitude is above 1000 ft and the previous TAS or the previous GS is above 50 kt,
  the returned triple is the three previous values, at any distance from the airport
  and under every configuration.
\<close>

theorem ValidateSensorData_signal_loss:
  assumes "f_eq currentAlt (Finite 0)" and "f_eq currentTAS (Finite 0)"
    and "f_eq currentGS (Finite 0)"
    and "f_gt prevAlt (Finite 1000)"
    and "f_gt prevTAS (Finite 50) \<or> f_gt prevGS (Finite 50)"
  shows "ValidateSensorData distanceNM currentTAS currentGS currentAlt
            prevTAS prevGS prevAlt aircraftLat aircraftLon stationLat stationLon
            airportRangeNM config = (prevTAS, prevGS, prevAlt)"
  using assms by (simp add: ValidateSensorData_def Let_def)

theorem ValidateSensorData_signal_loss_witness:
  "f_eq (Finite 0) (Finite 0) \<and> f_gt (Finite 1500) (Finite 1000) \<and> f_gt (Finite 60) (Finite 50) \<and>
   ValidateSensorData dist0 (Finite 0) (Finite 0) (Finite 0)
        (Finite 60) (Finite 30) (Finite 1500) (Finite 43) (Finite (-79)) (Finite 43) (Finite (-79))
        (Finite 5) cfg0 = (Finite 60, Finite 30, Finite 1500)"
  using ValidateSensorData_signal_loss
    [of "Finite 0" "Finite 0" "Finite 0" "Finite 1500" "Finite 60" "Finite 30" dist0
        "Finite 43" "Finite (-79)" "Finite 43" "Finite (-79)" "Finite 5" cfg0]
  by simp

text \<open>
  The claim as it was stated, with "the previous values indicate flight" as the
  classification \<^verbatim>\<open>IsFlying\<close> gives, fails: an aircraft last seen at 800 ft with 60 kt
  is flying (at least \<^verbatim>\<open>FlyingMinAltFt\<close> = 700 and \<^verbatim>\<open>FlyingMinTASKts\<close> = 50), yet
  within the airport range its three zeros are returned as they came.
\<close>

theorem ValidateSensorData_signal_loss_counterexample:
  "IsFlying (op_mul exact_ops) (op_div exact_ops) (Finite 60) (Finite 60) (Finite 800) cfg0 \<and>
   ValidateSensorData dist0 (Finite 0) (Finite 0) (Finite 0)
        (Finite 60) (Finite 60) (Finite 800) (Finite 43) (Finite (-79)) (Finite 43) (Finite (-79))
        (Finite 5) cfg0 = (Finite 0, Finite 0, Finite 0)"
  by (simp add: IsFlying_def ValidateSensorData_def cfg0_def dist0_def f_ge_def Let_def)

text \<open>
  C10. Sensor validation never alters a nonzero current value. For each of TAS, GS
  and altitude: if the current value is not 0 the returned value is the current one,
  and in every case the returned value is the current one, or, with a current value
  equal to 0, the previous one.
\<close>

theorem ValidateSensorData_frame:
  fixes distanceNM currentTAS currentGS currentAlt prevTAS prevGS prevAlt
    aircraftLat aircraftLon stationLat stationLon airportRangeNM config
  defines "r \<equiv> ValidateSensorData distanceNM currentTAS currentGS currentAlt
            prevTAS prevGS prevAlt aircraftLat aircraftLon stationLat stationLon
            airportRangeNM config"
  shows "(\<not> f_eq currentTAS (Finite 0) \<longrightarrow> fst r = currentTAS) \<and>
         (\<not> f_eq currentGS (Finite 0) \<longrightarrow> fst (snd r) = currentGS) \<and>
         (\<not> f_eq currentAlt (Finite 0) \<longrightarrow> snd (snd r) = currentAlt) \<and>
         (fst r = currentTAS \<or> (f_eq currentTAS (Finite 0) \<and> fst r = prevTAS)) \<and>
         (fst (snd r) = currentGS \<or> (f_eq currentGS (Finite 0) \<and> fst (snd r) = prevGS)) \<and>
         (snd (snd r) = currentAlt \<or> (f_eq currentAlt (Finite 0) \<and> snd (snd r) = prevAlt))"
  unfolding r_def by (simp add: ValidateSensorData_def Let_def)

theorem ValidateSensorData_frame_witness:
  "\<not> f_eq (Finite 120) (Finite 0) \<and> \<not> f_eq (Finite 130) (Finite 0) \<and>
   \<not> f_eq (Finite 900) (Finite 0) \<and>
   ValidateSensorData dist0 (Finite 120) (Finite 130) (Finite 900)
        (Finite 300) (Finite 310) (Finite 11000) (Finite 43) (Finite (-79)) (Finite 43) (Finite (-79))
        (Finite 5) cfg0 = (Finite 120, Finite 130, Finite 900)"
  using ValidateSensorData_frame
    [where currentTAS = "Finite 120" and currentGS = "Finite 130" and currentAlt = "Finite 900"
       and distanceNM = dist0 and prevTAS = "Finite 300" and prevGS = "Finite 310"
       and prevAlt = "Finite 11000" and aircraftLat = "Finite 43" and aircraftLon = "Finite (-79)"
       and stationLat = "Finite 43" and stationLon = "Finite (-79)"
       and airportRangeNM = "Finite 5" and config = cfg0]
  by (simp add: prod_eq_iff)

section \<open>Theorems: flying classification\<close>

text \<open>
  C4. For every flight-phases configuration, \<^verbatim>\<open>IsFlying\<close> returns true when the altitude
  is exactly \<^verbatim>\<open>FlyingMinAltFt\<close> and the effective speed (TAS, or GS when TAS is 0) is
  exactly \<^verbatim>\<open>FlyingMinTASKts\<close>: both thresholds are inclusive lower bounds. "Exactly" is
  Go's \<^verbatim>\<open>==\<close> on float64.
\<close>

theorem IsFlying_at_thresholds:
  assumes "f_eq altitude (FlyingMinAltFt config)"
    and "f_eq (effective_speed tas gs) (FlyingMinTASKts config)"
  shows "IsFlying fmul fdiv tas gs altitude config"
  using assms by (simp add: IsFlying_def effective_speed_def f_ge_def Let_def)

theorem IsFlying_at_thresholds_witness:
  "f_eq (Finite 700) (FlyingMinAltFt cfg0) \<and>
   f_eq (effective_speed (Finite 0) (Finite 50)) (FlyingMinTASKts cfg0) \<and>
   IsFlying (\<lambda>a b. NaN) (\<lambda>a b. NaN) (Finite 0) (Finite 50) (Finite 700) cfg0"
  using IsFlying_at_thresholds [of "Finite 700" cfg0 "Finite 0" "Finite 50" "\<lambda>a b. NaN" "\<lambda>a b. NaN"]
  by (simp add: cfg0_def effective_speed_def)

section \<open>Theorems: streaming WAV header\<close>

lemma write_chunks_concat:
  "length buf = off + length (concat cs) \<Longrightarrow> write_chunks off cs buf = take off buf @ concat cs"
proof (induction cs arbitrary: off buf)
  case Nil
  then show ?case by simp
next
  case (Cons c cs)
  have "length (copy_at off c buf) = (off + length c) + length (concat cs)"
    using Cons.prems by (simp add: copy_at_def)
  from Cons.IH [OF this] show ?case
    using Cons.prems by (simp add: copy_at_def)
qed

lemma length_Put [simp]: "length (PutUint32 v) = 4" "length (PutUint16 w) = 2"
  by (simp_all add: PutUint32_def PutUint16_def)

lemma header_bytes_chunks:
  assumes "length (ChunkID h) = 4" "length (Format h) = 4"
    and "length (Subchunk1ID h) = 4" "length (Subchunk2ID h) = 4"
  shows "header_bytes h =
     ChunkID h @ PutUint32 (ChunkSize h) @ Format h @ Subchunk1ID h @
     PutUint32 (Subchunk1Size h) @ PutUint16 (AudioFormat h) @ PutUint16 (NumChannels h) @
     PutUint32 (SampleRate h) @ PutUint32 (ByteRate h) @ PutUint16 (BlockAlign h) @
     PutUint16 (BitsPerSample h) @ Subchunk2ID h @ PutUint32 (Subchunk2Size h)"
proof -
  let ?cs = "[ChunkID h, PutUint32 (ChunkSize h), Format h, Subchunk1ID h,
     PutUint32 (Subchunk1Size h), PutUint16 (AudioFormat h), PutUint16 (NumChannels h),
     PutUint32 (SampleRate h), PutUint32 (ByteRate h), PutUint16 (BlockAlign h),
     PutUint16 (BitsPerSample h), Subchunk2ID h, PutUint32 (Subchunk2Size h)]"
  have "header_bytes h = write_chunks 0 ?cs (replicate 44 0)"
    unfolding header_bytes_def Let_def write_chunks.simps length_Put assms by simp
  also have "\<dots> = take 0 (replicate 44 0) @ concat ?cs"
    by (rule write_chunks_concat) (simp add: assms)
  finally show ?thesis by simp
qed

lemma createWAVHeader_bytes:
  "createWAVHeader sampleRate channels =
     ascii ''RIFF'' @ PutUint32 0xFFFFFFFF @ ascii ''WAVE'' @
     ascii ''fmt '' @ PutUint32 16 @ PutUint16 1 @ PutUint16 (ucast channels) @
     PutUint32 (ucast sampleRate) @ PutUint32 (ucast (sampleRate * channels * 2)) @
     PutUint16 (ucast (channels * 2)) @ PutUint16 16 @
     ascii ''data'' @ PutUint32 0xFFFFFFDB"
proof -
  let ?h = "wav_header_fields sampleRate channels"
  have d: "(16 :: 16 word) div 8 = 2"
    by (simp add: word_div_def)
  have "header_bytes ?h = ChunkID ?h @ PutUint32 (ChunkSize ?h) @ Format ?h @ Subchunk1ID ?h @
     PutUint32 (Subchunk1Size ?h) @ PutUint16 (AudioFormat ?h) @ PutUint16 (NumChannels ?h) @
     PutUint32 (SampleRate ?h) @ PutUint32 (ByteRate ?h) @ PutUint16 (BlockAlign ?h) @
     PutUint16 (BitsPerSample ?h) @ Subchunk2ID ?h @ PutUint32 (Subchunk2Size ?h)"
    by (rule header_bytes_chunks) (simp_all add: wav_header_fields_def ascii_def)
  then show ?thesis
    by (simp add: createWAVHeader_def wav_header_fields_def d)
qed

lemma slice_append_left: "length a = lo \<Longrightarrow> slice lo hi (a @ b) = take (hi - lo) b"
  by (simp add: slice_def)

lemma WAVReader_first_read:
  assumes "44 \<le> n"
  shows "take 44 (fst (fst (WAVReader_Read rd (NewWAVReader r sampleRate channels) n)))
           = createWAVHeader sampleRate channels"
proof -
  have "length (createWAVHeader sampleRate channels) = 44"
    by (simp add: createWAVHeader_bytes ascii_def)
  then show ?thesis
    using assms by (simp add: WAVReader_Read_def NewWAVReader_def Let_def split: prod.splits)
qed

text \<open>
  C8, as amended. For every sample rate and channel count the synthesized header is
  44 bytes of PCM WAV framing: "RIFF", the RIFF chunk size, "WAVE", "fmt " with
  sub-chunk size 16, audio format 1 (PCM), the channel count, the sample rate, the
  byte rate, the block alignment, 16 bits per sample, "data" and the data size, all
  little-endian. The RIFF chunk-size field is the maximum 0xFFFFFFFF; the data
  sub-chunk size is that maximum minus the 36 header bytes the chunk size counts,
  0xFFFFFFDB.
\<close>

theorem createWAVHeader_framing:
  "length (createWAVHeader sampleRate channels) = 44 \<and>
   createWAVHeader sampleRate channels =
     ascii ''RIFF'' @ PutUint32 0xFFFFFFFF @ ascii ''WAVE'' @
     ascii ''fmt '' @ PutUint32 16 @ PutUint16 1 @ PutUint16 (ucast channels) @
     PutUint32 (ucast sampleRate) @ PutUint32 (ucast (sampleRate * channels * 2)) @
     PutUint16 (ucast (channels * 2)) @ PutUint16 16 @
     ascii ''data'' @ PutUint32 0xFFFFFFDB \<and>
   Uint32 (slice 4 8 (createWAVHeader sampleRate channels)) = 0xFFFFFFFF \<and>
   Uint32 (slice 40 44 (createWAVHeader sampleRate channels)) = 0xFFFFFFFF - 36"
proof -
  let ?pre = "ascii ''RIFF'' @ PutUint32 0xFFFFFFFF @ ascii ''WAVE'' @
     ascii ''fmt '' @ PutUint32 16 @ PutUint16 1 @ PutUint16 (ucast channels) @
     PutUint32 (ucast sampleRate) @ PutUint32 (ucast (sampleRate * channels * 2)) @
     PutUint16 (ucast (channels * 2)) @ PutUint16 16 @ ascii ''data''"
  have e: "createWAVHeader sampleRate channels = ?pre @ PutUint32 0xFFFFFFDB"
    by (simp add: createWAVHeader_bytes)
  have l: "length ?pre = 40"
    by (simp add: ascii_def)
  have "slice 40 44 (?pre @ PutUint32 0xFFFFFFDB) = PutUint32 0xFFFFFFDB"
    using l by (simp only: slice_append_left) simp
  then have a: "Uint32 (slice 40 44 (createWAVHeader sampleRate channels)) = 0xFFFFFFFF - 36"
    unfolding e by (simp add: Uint32_def PutUint32_def)
  have l4: "length (ascii ''RIFF'') = 4"
    by (simp add: ascii_def)
  have "slice 4 8 (ascii ''RIFF'' @ PutUint32 0xFFFFFFFF @ rest) = PutUint32 0xFFFFFFFF" for rest
    using slice_append_left [OF l4, of 8 "PutUint32 0xFFFFFFFF @ rest"] by simp
  then have b: "Uint32 (slice 4 8 (createWAVHeader sampleRate channels)) = 0xFFFFFFFF"
    unfolding createWAVHeader_bytes by (simp add: Uint32_def PutUint32_def)
  have c: "length (createWAVHeader sampleRate channels) = 44"
    unfolding e using l by simp
  show ?thesis
    using a b c createWAVHeader_bytes by blast
qed

text \<open>
  The claim as stated fails: at 24 kHz mono the data sub-chunk size that the header
  carries is not the maximum 32-bit value.
\<close>

theorem createWAVHeader_data_size_counterexample:
  "Uint32 (slice 40 44 (createWAVHeader 24000 1)) \<noteq> 0xFFFFFFFF"
proof -
  have "slice 40 44 (createWAVHeader 24000 1) = PutUint32 0xFFFFFFDB"
    unfolding createWAVHeader_bytes by (simp add: slice_def ascii_def)
  then show ?thesis
    by (simp add: Uint32_def PutUint32_def)
qed

section \<open>Theorems: weather fetch with retries\<close>

lemma sint_of_nat_small: "n < 2 ^ 63 \<Longrightarrow> sint (of_nat n :: 64 word) = int n"
proof -
  assume n: "n < 2 ^ 63"
  then have i: "int n < 2 ^ 63"
    by (metis of_nat_less_numeral_power_cancel_iff)
  have "sint (of_nat n :: 64 word) = sint (word_of_int (int n) :: 64 word)"
    by simp
  also have "\<dots> = signed_take_bit 63 (int n)"
    by (subst sint_sbintrunc') simp
  also have "\<dots> = int n"
    using i by (intro signed_take_bit_int_eq_self) simp_all
  finally show ?thesis .
qed

lemma backoffDuration_value:
  assumes "1 \<le> j" and "j \<le> 35"
  shows "sint (backoffDuration (of_nat j)) = 500000000 * 2 ^ (j - 1)"
proof -
  have e: "(of_nat j :: 64 word) - 1 = of_nat (j - 1)"
    using assms by simp
  have "j - 1 < 2 ^ 64"
    using assms by simp
  then have u: "unat (of_nat (j - 1) :: 64 word) = j - 1"
    by (simp add: unat_of_nat)
  have p: "(2 :: int) ^ (j - 1) \<le> 2 ^ 34"
    using assms by (intro power_increasing) simp_all
  have w: "backoffDuration (of_nat j) = word_of_int (500000000 * 2 ^ (j - 1))"
    unfolding backoffDuration_def e u by (simp add: push_bit_eq_mult)
  have "sint (word_of_int (500000000 * 2 ^ (j - 1)) :: 64 word)
          = signed_take_bit 63 (500000000 * 2 ^ (j - 1) :: int)"
    by (subst sint_sbintrunc') simp
  also have "\<dots> = 500000000 * 2 ^ (j - 1)"
  proof (rule signed_take_bit_int_eq_self)
    have "- (2 ^ 63) \<le> (0 :: int)" and "(0 :: int) \<le> 500000000 * 2 ^ (j - 1)"
      by simp_all
    then show "- (2 ^ 63) \<le> (500000000 * 2 ^ (j - 1) :: int)"
      by (rule order_trans)
    show "(500000000 * 2 ^ (j - 1) :: int) < 2 ^ 63"
      using p by simp
  qed
  finally show ?thesis
    using w by simp
qed

lemma err_of_None: "err_of x = None \<longleftrightarrow> (\<exists>d. x = Response 200 (Inr d))"
  by (cases x) (auto split: sum.splits)

lemma fetch_loop_exit:
  "\<not> attempt \<le>s MaxRetries \<Longrightarrow>
   fetch_loop env MaxRetries attempt lastErr k sleeps = Some ((None, lastErr), k, sleeps)"
  by (subst fetch_loop.simps) simp

lemma fetch_loop_success:
  "attempt \<le>s MaxRetries \<Longrightarrow> env k = Response 200 (Inr d) \<Longrightarrow>
   fetch_loop env MaxRetries attempt lastErr k sleeps =
     Some ((Some d, None), k + 1,
           if 0 <s attempt then sleeps @ [backoffDuration attempt] else sleeps)"
  by (subst fetch_loop.simps) simp

lemma fetch_loop_failure:
  "attempt \<le>s MaxRetries \<Longrightarrow> err_of (env k) = Some e \<Longrightarrow>
   fetch_loop env MaxRetries attempt lastErr k sleeps =
     fetch_loop env MaxRetries (attempt + 1) (Some e) (k + 1)
       (if 0 <s attempt then sleeps @ [backoffDuration attempt] else sleeps)"
  by (subst fetch_loop.simps) (auto split: outcome.splits sum.splits if_splits)

lemma backoffs_step:
  "a < k \<Longrightarrow> backoffs a k = (if 0 < a then [backoffDuration (of_nat a)] else []) @ backoffs (Suc a) k"
  by (simp add: backoffs_def upt_conv_Cons)

lemma fetch_loop_result:
  assumes "m + 1 < 2 ^ 63" and "a \<le> m + 1"
  shows "\<exists>res k. fetch_loop env (of_nat m) (of_nat a) lastErr a sleeps
                    = Some (res, k, sleeps @ backoffs a k)
          \<and> a \<le> k \<and> k \<le> m + 1
          \<and> (\<forall>j. a \<le> j \<and> j + 1 < k \<longrightarrow> err_of (env j) \<noteq> None)
          \<and> (if a < k \<and> err_of (env (k - 1)) = None
              then \<exists>d. env (k - 1) = Response 200 (Inr d) \<and> res = (Some d, None)
              else k = m + 1 \<and> res = (None, if a \<le> m then err_of (env m) else lastErr))"
  using assms
proof (induction "m + 1 - a" arbitrary: a lastErr sleeps)
  case 0
  then have a: "a = m + 1" by simp
  have "sint (of_nat (m + 1) :: 64 word) = int (m + 1)" "sint (of_nat m :: 64 word) = int m"
    using "0.prems" by (simp_all add: sint_of_nat_small del: of_nat_Suc of_nat_add)
  then have "\<not> (of_nat a :: 64 word) \<le>s of_nat m"
    unfolding a word_sle_eq by simp
  then have "fetch_loop env (of_nat m) (of_nat a) lastErr a sleeps = Some ((None, lastErr), a, sleeps)"
    by (rule fetch_loop_exit)
  then show ?case
    using a by (auto simp add: backoffs_def)
next
  case (Suc n)
  then have am: "a \<le> m" and n: "n = m + 1 - Suc a" by simp_all
  have s: "sint (of_nat a :: 64 word) = int a" "sint (of_nat m :: 64 word) = int m"
    using Suc.prems am by (simp_all add: sint_of_nat_small)
  have le: "(of_nat a :: 64 word) \<le>s of_nat m"
    unfolding word_sle_eq s using am by simp
  have pos: "(0 <s (of_nat a :: 64 word)) = (0 < a)"
    unfolding word_sless_alt s by simp
  define sl where "sl = (if 0 < a then sleeps @ [backoffDuration (of_nat a)] else sleeps)"
  have sl: "sl = sleeps @ (if 0 < a then [backoffDuration (of_nat a)] else [])"
    by (simp add: sl_def)
  show ?case
  proof (cases "err_of (env a)")
    case None
    then obtain d where d: "env a = Response 200 (Inr d)"
      by (auto simp: err_of_None)
    have "fetch_loop env (of_nat m) (of_nat a) lastErr a sleeps = Some ((Some d, None), a + 1, sl)"
      using fetch_loop_success [where env = env and k = a, OF le d] by (simp add: pos sl_def)
    moreover have "backoffs a (a + 1) = (if 0 < a then [backoffDuration (of_nat a)] else [])"
      by (simp add: backoffs_def)
    ultimately show ?thesis
      using am d None by (intro exI [of _ "(Some d, None)"] exI [of _ "a + 1"]) (auto simp add: sl)
  next
    case (Some e)
    have step: "fetch_loop env (of_nat m) (of_nat a) lastErr a sleeps
                 = fetch_loop env (of_nat m) (of_nat (Suc a)) (Some e) (Suc a) sl"
      using fetch_loop_failure [where env = env and k = a, OF le Some] by (simp add: pos sl_def add.commute)
    from Suc.hyps(1) [OF n Suc.prems(1), of "Some e" sl] am
    obtain res k where r: "fetch_loop env (of_nat m) (of_nat (Suc a)) (Some e) (Suc a) sl
                    = Some (res, k, sl @ backoffs (Suc a) k)"
      and k: "Suc a \<le> k" "k \<le> m + 1"
      and f: "\<forall>j. Suc a \<le> j \<and> j + 1 < k \<longrightarrow> err_of (env j) \<noteq> None"
      and c: "if Suc a < k \<and> err_of (env (k - 1)) = None
              then \<exists>d. env (k - 1) = Response 200 (Inr d) \<and> res = (Some d, None)
              else k = m + 1 \<and> res = (None, if Suc a \<le> m then err_of (env m) else Some e)"
      by auto
    have b: "sl @ backoffs (Suc a) k = sleeps @ backoffs a k"
      using k by (simp add: sl backoffs_step)
    have f': "\<forall>j. a \<le> j \<and> j + 1 < k \<longrightarrow> err_of (env j) \<noteq> None"
    proof (intro allI impI)
      fix j assume j: "a \<le> j \<and> j + 1 < k"
      show "err_of (env j) \<noteq> None"
      proof (cases "j = a")
        case True
        then show ?thesis using Some by simp
      next
        case False
        then show ?thesis using f j by simp
      qed
    qed
    have c': "if a < k \<and> err_of (env (k - 1)) = None
              then \<exists>d. env (k - 1) = Response 200 (Inr d) \<and> res = (Some d, None)
              else k = m + 1 \<and> res = (None, if a \<le> m then err_of (env m) else lastErr)"
    proof (cases "Suc a < k")
      case True
      then show ?thesis using c am by (auto split: if_splits)
    next
      case False
      then have ka: "k = Suc a" using k by simp
      then have "k = m + 1 \<and> res = (None, Some e)"
        using c Some by (auto split: if_splits)
      then show ?thesis
        using ka Some am by auto
    qed
    show ?thesis
      using step r b k f' c' by (intro exI [of _ res] exI [of _ k]) (simp add: Suc_leD)
  qed
qed

lemma backoffs_from_0: "backoffs 0 k = map (\<lambda>j. backoffDuration (of_nat j)) [1..<k]"
proof (cases k)
  case 0
  then show ?thesis by (simp add: backoffs_def)
next
  case (Suc n)
  have "filter (\<lambda>j. 0 < j) [Suc 0..<Suc n] = [Suc 0..<Suc n]"
    by (rule filter_True) auto
  then show ?thesis
    unfolding backoffs_def Suc by (simp add: upt_conv_Cons del: upt_Suc)
qed

lemma backoffs_nth:
  assumes "i + 1 < k"
  shows "backoffs 0 k ! i = backoffDuration (of_nat (i + 1))"
proof -
  have "[1..<k] ! i = 1 + i"
    using assms by (intro nth_upt) simp
  moreover have "i < length [1..<k]"
    using assms by simp
  ultimately show ?thesis
    unfolding backoffs_from_0 by (simp add: add.commute)
qed

lemma length_backoffs: "length (backoffs 0 k) = k - 1"
  by (simp add: backoffs_from_0)

lemma fetchWithRetry_nonneg:
  assumes "m + 1 < 2 ^ 63"
  shows "\<exists>res k. fetchWithRetry env (of_nat m) = Some (res, k, backoffs 0 k)
          \<and> k \<le> m + 1
          \<and> (\<forall>j. j + 1 < k \<longrightarrow> err_of (env j) \<noteq> None)
          \<and> (if 0 < k \<and> err_of (env (k - 1)) = None
              then \<exists>d. env (k - 1) = Response 200 (Inr d) \<and> res = (Some d, None)
              else k = m + 1 \<and> res = (None, err_of (env m)))"
  using fetch_loop_result [OF assms, of 0 env None "[]"]
  by (simp add: fetchWithRetry_def split del: if_split cong: if_cong)

lemma fetchWithRetry_negative:
  assumes "MaxRetries <s 0"
  shows "fetchWithRetry env MaxRetries = Some ((None, None), 0, [])"
proof -
  have "\<not> 0 \<le>s MaxRetries"
    using assms by (simp add: word_sle_eq word_sless_alt)
  then show ?thesis
    unfolding fetchWithRetry_def by (rule fetch_loop_exit)
qed

lemma fetchWithRetry_down:
  assumes "m + 1 < 2 ^ 63"
  shows "fetchWithRetry env_down (of_nat m)
           = Some ((None, Some (RequestError ''connection refused'')), m + 1, backoffs 0 (m + 1))"
proof -
  have e: "err_of (env_down j) = Some (RequestError ''connection refused'')" for j
    by (simp add: env_down_def)
  from fetchWithRetry_nonneg [OF assms, of env_down] show ?thesis
    by (auto simp add: e)
qed

lemma fetch_loop_bound:
  assumes "err_of (env j) = None" and "a \<le> j" and "j \<le> m1" and "j \<le> m2"
    and "m1 < 2 ^ 63" and "m2 < 2 ^ 63"
  shows "fetch_loop env (of_nat m1) (of_nat a) lastErr a sleeps
          = fetch_loop env (of_nat m2) (of_nat a) lastErr a sleeps"
  using assms(2)
proof (induction "j - a" arbitrary: a lastErr sleeps)
  case 0
  then have a: "a = j" by simp
  obtain d where d: "env a = Response 200 (Inr d)"
    using assms(1) a by (auto simp: err_of_None)
  have s: "sint (of_nat a :: 64 word) = int a" "sint (of_nat m1 :: 64 word) = int m1"
      "sint (of_nat m2 :: 64 word) = int m2"
    using assms a by (simp_all add: sint_of_nat_small)
  have "(of_nat a :: 64 word) \<le>s of_nat m1" and "(of_nat a :: 64 word) \<le>s of_nat m2"
    unfolding word_sle_eq s using assms a by simp_all
  then show ?case
    using d by (simp add: fetch_loop_success [where env = env and k = a])
next
  case (Suc n)
  then have aj: "a < j" and n: "n = j - Suc a" by simp_all
  have s: "sint (of_nat a :: 64 word) = int a" "sint (of_nat m1 :: 64 word) = int m1"
      "sint (of_nat m2 :: 64 word) = int m2"
    using assms aj by (simp_all add: sint_of_nat_small)
  have le: "(of_nat a :: 64 word) \<le>s of_nat m1" "(of_nat a :: 64 word) \<le>s of_nat m2"
    unfolding word_sle_eq s using assms aj by simp_all
  show ?case
  proof (cases "err_of (env a)")
    case None
    then obtain d where d: "env a = Response 200 (Inr d)"
      by (auto simp: err_of_None)
    show ?thesis
      using d le by (simp add: fetch_loop_success [where env = env and k = a])
  next
    case (Some e)
    have "fetch_loop env (of_nat m1) (of_nat (Suc a)) (Some e) (Suc a) sl
          = fetch_loop env (of_nat m2) (of_nat (Suc a)) (Some e) (Suc a) sl" for sl
      using Suc.hyps(1) [OF n] aj by simp
    then show ?thesis
      using fetch_loop_failure [where env = env and k = a, OF le(1) Some]
        fetch_loop_failure [where env = env and k = a, OF le(2) Some]
      by (simp add: add.commute)
  qed
qed

lemma fetchWithRetry_bound:
  assumes "err_of (env j) = None" and "j \<le> m1" and "j \<le> m2"
    and "m1 < 2 ^ 63" and "m2 < 2 ^ 63"
  shows "fetchWithRetry env (of_nat m1) = fetchWithRetry env (of_nat m2)"
  using fetch_loop_bound [where env = env and j = j and a = 0 and ?m1.0 = m1 and ?m2.0 = m2
      and lastErr = None and sleeps = "[]"] assms
  by (simp add: fetchWithRetry_def)

lemma backoffs_first_35:
  assumes "35 < k"
  shows "sum_list (map sint (take 35 (backoffs 0 k))) = 500 * 1000000 * (2 ^ 35 - 1)"
proof -
  have "take 35 (backoffs 0 k) = map (\<lambda>j. backoffDuration (of_nat j)) (take 35 [1..<k])"
    unfolding backoffs_from_0 by (simp add: take_map)
  also have "take 35 [1..<k] = [1..<36]"
    using assms by (simp add: take_upt)
  finally have "map sint (take 35 (backoffs 0 k))
                  = map (\<lambda>j. sint (backoffDuration (of_nat j))) [1..<36]"
    by simp
  also have "\<dots> = map (\<lambda>j. 500000000 * 2 ^ (j - 1)) [1..<36]"
    by (rule map_cong [OF refl]) (simp add: backoffDuration_value)
  finally have "sum_list (map sint (take 35 (backoffs 0 k)))
                  = sum_list (map (\<lambda>j. 500000000 * 2 ^ (j - 1)) [1..<36])"
    by simp
  also have "\<dots> = (17179869183500000000 :: int)"
    by code_simp
  finally show ?thesis
    by simp
qed

text \<open>
  C7. The fetch returns, for every \<^verbatim>\<open>MaxRetries\<close> and every upstream; only with
  \<^verbatim>\<open>MaxRetries\<close> the largest int, where the loop has no bound and \<^verbatim>\<open>MaxRetries + 1\<close> is
  not an int, one of the first \<open>2 ^ 63 - 1\<close> requests has to succeed. It makes at most
  \<^verbatim>\<open>MaxRetries + 1\<close> attempts (none when \<^verbatim>\<open>MaxRetries\<close> is negative); it sleeps once
  before each retry, and the sleep before retry attempt number \<open>attempt\<close>, from 1 to
  35, lasts 500 ms times \<open>2 ^ (attempt - 1)\<close>, in nanoseconds. A fetch that gets beyond
  attempt 35 has by then slept 500 ms times \<open>2 ^ 35 - 1\<close>, more than 544 years. Every
  attempt but the last one has failed; and when the last attempt fails too, all
  \<^verbatim>\<open>MaxRetries + 1\<close> attempts were made and the result is no data together with the error
  of that last attempt.
\<close>

theorem fetchWithRetry_backoff:
  assumes "MaxRetries <s 0x7FFFFFFFFFFFFFFF \<or> (\<exists>j. j < 2 ^ 63 - 1 \<and> err_of (env j) = None)"
  shows "\<exists>data err k sleeps. fetchWithRetry env MaxRetries = Some ((data, err), k, sleeps)
     \<and> int k \<le> max 0 (sint MaxRetries + 1)
     \<and> length sleeps = k - 1
     \<and> (\<forall>attempt. 1 \<le> attempt \<and> attempt < k \<and> attempt \<le> 35 \<longrightarrow>
           sint (sleeps ! (attempt - 1)) = 500 * 1000000 * 2 ^ (attempt - 1))
     \<and> (35 < k \<longrightarrow> sum_list (map sint (take 35 sleeps)) = 500 * 1000000 * (2 ^ 35 - 1))
     \<and> (\<forall>j. j + 1 < k \<longrightarrow> err_of (env j) \<noteq> None)
     \<and> (if 0 < k \<and> err_of (env (k - 1)) = None
         then \<exists>d. env (k - 1) = Response 200 (Inr d) \<and> data = Some d \<and> err = None
         else int k = max 0 (sint MaxRetries + 1) \<and> data = None
              \<and> err = (if k = 0 then None else err_of (env (k - 1))))"
proof (cases "MaxRetries <s 0")
  case True
  then have "sint MaxRetries + 1 \<le> 0"
    by (simp add: word_sless_alt)
  then show ?thesis
    using fetchWithRetry_negative [OF True, of env] by simp
next
  case False
  then have lo: "0 \<le> sint MaxRetries"
    by (simp add: word_sless_alt)
  define m where "m = nat (sint MaxRetries)"
  have sm: "sint MaxRetries = int m"
    using lo by (simp add: m_def)
  have "sint MaxRetries < 2 ^ (LENGTH(64) - 1)"
    by (rule sint_lt)
  then have m63: "m < 2 ^ 63"
    using sm by simp
  have "sint (of_nat m :: 64 word) = int m"
    using m63 by (rule sint_of_nat_small)
  then have "sint MaxRetries = sint (of_nat m :: 64 word)"
    using sm by simp
  then have M: "MaxRetries = of_nat m"
    by (rule signed_word_eqI)
  have "\<exists>res k. fetchWithRetry env (of_nat m) = Some (res, k, backoffs 0 k)
          \<and> k \<le> m + 1
          \<and> (\<forall>j. j + 1 < k \<longrightarrow> err_of (env j) \<noteq> None)
          \<and> (if 0 < k \<and> err_of (env (k - 1)) = None
              then \<exists>d. env (k - 1) = Response 200 (Inr d) \<and> res = (Some d, None)
              else k = m + 1 \<and> res = (None, err_of (env m)))"
  proof (cases "m + 1 < 2 ^ 63")
    case True
    then show ?thesis by (rule fetchWithRetry_nonneg)
  next
    case False
    then have top: "m = 2 ^ 63 - 1"
      using m63 by simp
    have "sint (0x7FFFFFFFFFFFFFFF :: 64 word) = 9223372036854775807"
      by simp
    then have "\<not> MaxRetries <s 0x7FFFFFFFFFFFFFFF"
      using sm top by (simp add: word_sless_alt)
    then obtain j where j: "j < 2 ^ 63 - 1" "err_of (env j) = None"
      using assms by blast
    have j1: "j + 1 < 2 ^ 63"
      using j(1) by simp
    have e: "fetchWithRetry env (of_nat m) = fetchWithRetry env (of_nat j)"
      using j top fetchWithRetry_bound [where env = env and j = j and ?m1.0 = m and ?m2.0 = j]
      by simp
    from fetchWithRetry_nonneg [OF j1, of env]
    obtain res k where r: "fetchWithRetry env (of_nat j) = Some (res, k, backoffs 0 k)"
      and k: "k \<le> j + 1"
      and f: "\<forall>i. i + 1 < k \<longrightarrow> err_of (env i) \<noteq> None"
      and c: "if 0 < k \<and> err_of (env (k - 1)) = None
              then \<exists>d. env (k - 1) = Response 200 (Inr d) \<and> res = (Some d, None)
              else k = j + 1 \<and> res = (None, err_of (env j))"
      by blast
    have "0 < k \<and> err_of (env (k - 1)) = None"
      using c j(2) by (auto split: if_splits)
    then have c': "if 0 < k \<and> err_of (env (k - 1)) = None
              then \<exists>d. env (k - 1) = Response 200 (Inr d) \<and> res = (Some d, None)
              else k = m + 1 \<and> res = (None, err_of (env m))"
      using c by simp
    have "k \<le> m + 1"
      using k j(1) top by simp
    then show ?thesis
      using r f c' unfolding e by blast
  qed
  then obtain res k where r: "fetchWithRetry env (of_nat m) = Some (res, k, backoffs 0 k)"
    and k: "k \<le> m + 1"
    and f: "\<forall>j. j + 1 < k \<longrightarrow> err_of (env j) \<noteq> None"
    and c: "if 0 < k \<and> err_of (env (k - 1)) = None
            then \<exists>d. env (k - 1) = Response 200 (Inr d) \<and> res = (Some d, None)
            else k = m + 1 \<and> res = (None, err_of (env m))"
    by blast
  have d: "sint (backoffs 0 k ! (attempt - 1)) = 500 * 1000000 * 2 ^ (attempt - 1)"
    if "1 \<le> attempt \<and> attempt < k \<and> attempt \<le> 35" for attempt
  proof -
    have "backoffs 0 k ! (attempt - 1) = backoffDuration (of_nat attempt)"
      using that backoffs_nth [of "attempt - 1" k] by simp
    then show ?thesis
      using that backoffDuration_value [of attempt] by simp
  qed
  have t: "35 < k \<longrightarrow> sum_list (map sint (take 35 (backoffs 0 k))) = 500 * 1000000 * (2 ^ 35 - 1)"
    using backoffs_first_35 by blast
  have kk: "int k \<le> max 0 (sint MaxRetries + 1)"
    using k sm by simp
  obtain data err where res: "res = (data, err)"
    by (cases res)
  have c': "if 0 < k \<and> err_of (env (k - 1)) = None
         then \<exists>d. env (k - 1) = Response 200 (Inr d) \<and> data = Some d \<and> err = None
         else int k = max 0 (sint MaxRetries + 1) \<and> data = None
              \<and> err = (if k = 0 then None else err_of (env (k - 1)))"
    using c res sm by (auto split: if_splits)
  show ?thesis
    using r d t kk f c' unfolding M [symmetric] res
    by (intro exI [of _ data] exI [of _ err] exI [of _ k] exI [of _ "backoffs 0 k"])
       (simp add: length_backoffs)
qed

theorem fetchWithRetry_backoff_witness:
  "(100 :: 64 word) <s 0x7FFFFFFFFFFFFFFF \<and>
   fetchWithRetry env_recovers 100 = Some ((Some (), None), 3, [500000000, 1000000000]) \<and>
   fetchWithRetry env_down 2 =
     Some ((None, Some (RequestError ''connection refused'')), 3, [500000000, 1000000000])"
proof -
  have h: "(100 :: 64 word) <s 0x7FFFFFFFFFFFFFFF"
    by simp
  have e: "fetchWithRetry env_recovers 100 = Some ((Some (), None), 3, [500000000, 1000000000])"
    by code_simp
  have g: "fetchWithRetry env_down 2 =
     Some ((None, Some (RequestError ''connection refused'')), 3, [500000000, 1000000000])"
    by code_simp
  from fetchWithRetry_backoff [of 100 env_recovers] e g h show ?thesis
    by simp
qed

text \<open>
  From retry attempt 36 on the nanosecond count has wrapped: with 36 retries
  configured and the upstream down for the 544 years that the first 35 sleeps take,
  the sleep before attempt 36 is a negative int64, and \<^verbatim>\<open>time.Sleep\<close> returns at once.
\<close>

lemma backoffDuration_wraps_at_36:
  "map_option (\<lambda>r. sint (snd (snd r) ! 35)) (fetchWithRetry env_down 36)
     = Some (- 1266874889709551616) \<and>
   (- 1266874889709551616 :: int) \<noteq> 500 * 1000000 * 2 ^ 35"
proof -
  have "fetchWithRetry env_down (of_nat 36)
          = Some ((None, Some (RequestError ''connection refused'')), 36 + 1, backoffs 0 (36 + 1))"
    by (rule fetchWithRetry_down) simp
  moreover have "backoffs 0 37 ! 35 = backoffDuration (of_nat (35 + 1))"
    by (rule backoffs_nth) simp
  moreover have "sint (backoffDuration 36) = - 1266874889709551616"
    by code_simp
  ultimately show ?thesis
    by simp
qed

section \<open>Theorems: change detector\<close>

lemma f_ne_same: "x \<noteq> NaN \<Longrightarrow> \<not> f_ne x x"
  by (cases x) (simp_all add: f_ne_def)

lemma hasAnyChanges_same:
  assumes "NaN_free a"
  shows "\<not> hasAnyChanges a a"
proof -
  have d: "\<not> f_ne x x" if "Distance a = Some x" for x
    using assms that by (intro f_ne_same) (auto simp add: NaN_free_def compared_floats_def)
  have t: "\<not> f_ne (Lat t) (Lat t) \<and> \<not> f_ne (Lon t) (Lon t) \<and> \<not> f_ne (AltBaro t) (AltBaro t)
        \<and> \<not> f_ne (Track t) (Track t) \<and> \<not> f_ne (GS t) (GS t) \<and> \<not> f_ne (TAS t) (TAS t)
        \<and> \<not> f_ne (BaroRate t) (BaroRate t) \<and> \<not> f_ne (MagHeading t) (MagHeading t)
        \<and> \<not> f_ne (TrueHeading t) (TrueHeading t)" if "ADSB a = Some t" for t
    using assms that by (intro conjI f_ne_same) (auto simp add: NaN_free_def compared_floats_def)
  show ?thesis
    using d t by (auto simp add: hasAnyChanges_def split: option.splits)
qed

lemma fold_update_distinct:
  "distinct (map fst acc) \<Longrightarrow>
   distinct (map fst (fold (\<lambda>aircraft m. AList.update (Hex aircraft) aircraft m) xs acc))"
  by (induction xs arbitrary: acc) (simp_all add: distinct_update)

lemma fold_update_values:
  "map_of (fold (\<lambda>aircraft m. AList.update (Hex aircraft) aircraft m) xs acc) k = Some v \<Longrightarrow>
   v \<in> set xs \<or> map_of acc k = Some v"
proof (induction xs arbitrary: acc)
  case Nil
  then show ?case by simp
next
  case (Cons x xs)
  from Cons.IH [of "AList.update (Hex x) x acc"] Cons.prems
  show ?case
    by (auto simp add: update_conv' split: if_splits)
qed

lemma build_currentMap_distinct: "distinct (map fst (build_currentMap xs))"
  unfolding build_currentMap_def by (rule fold_update_distinct) simp

lemma build_currentMap_values:
  "(k, v) \<in> set (build_currentMap xs) \<Longrightarrow> map_of (build_currentMap xs) k = Some v \<and> v \<in> set xs"
proof -
  assume "(k, v) \<in> set (build_currentMap xs)"
  then have m: "map_of (build_currentMap xs) k = Some v"
    using build_currentMap_distinct [of xs] by simp
  then have "v \<in> set xs"
    using fold_update_values [of xs "[]" k v] by (simp add: build_currentMap_def)
  with m show ?thesis by simp
qed

lemma concat_map_empty: "(\<And>x. x \<in> set xs \<Longrightarrow> f x = []) \<Longrightarrow> concat (map f xs) = []"
  by (induction xs) simp_all

lemma DetectChanges_previous:
  "previousAircraft (snd (DetectChanges cd xs)) = build_currentMap xs"
  by (simp add: DetectChanges_def Let_def)

lemma DetectChanges_same_map:
  assumes "\<And>a. a \<in> set xs \<Longrightarrow> NaN_free a"
    and "previousAircraft cd = build_currentMap xs"
  shows "fst (DetectChanges cd xs) = []"
proof -
  have 1: "new_or_updated (build_currentMap xs) kv = []" if "kv \<in> set (build_currentMap xs)" for kv
  proof -
    obtain k v where kv: "kv = (k, v)" by (cases kv)
    from build_currentMap_values [of k v xs] that kv
    have "map_of (build_currentMap xs) k = Some v" and "v \<in> set xs" by simp_all
    then show ?thesis
      using assms(1) [of v] by (simp add: new_or_updated_def kv hasAnyChanges_same)
  qed
  have 2: "removed_entry (build_currentMap xs) kv = []" if "kv \<in> set (build_currentMap xs)" for kv
  proof -
    obtain k v where kv: "kv = (k, v)" by (cases kv)
    from build_currentMap_values [of k v xs] that kv
    show ?thesis by (simp add: removed_entry_def)
  qed
  show ?thesis
    by (simp add: DetectChanges_def Let_def assms(2) concat_map_empty 1 2)
qed

text \<open>
  C5, as amended. For every detector state and every aircraft list none of whose
  aircraft has a NaN among the float64 values that \<^verbatim>\<open>hasAnyChanges\<close> compares: after
  the detector has processed the list once, a second call with the same list returns
  the empty change list.
\<close>

theorem DetectChanges_twice:
  assumes "\<forall>a \<in> set X. NaN_free a"
  shows "fst (DetectChanges (snd (DetectChanges cd X)) X) = []"
  using assms by (intro DetectChanges_same_map) (simp_all add: DetectChanges_previous)

theorem DetectChanges_twice_witness:
  "NaN_free aircraft0 \<and>
   fst (DetectChanges NewChangeDetector [aircraft0]) =
     [\<lparr> Type = ''added'', Aircraft = Some aircraft0, ChangeHex = ''c01234'' \<rparr>] \<and>
   fst (DetectChanges (snd (DetectChanges NewChangeDetector [aircraft0])) [aircraft0]) = []"
proof -
  have h: "\<forall>a \<in> set [aircraft0]. NaN_free a"
    by (simp add: NaN_free_def compared_floats_def aircraft0_def adsb0_def)
  have "fst (DetectChanges NewChangeDetector [aircraft0]) =
     [\<lparr> Type = ''added'', Aircraft = Some aircraft0, ChangeHex = ''c01234'' \<rparr>]"
    by (simp add: DetectChanges_def NewChangeDetector_def build_currentMap_def new_or_updated_def
        aircraft0_def)
  with h DetectChanges_twice [OF h, of NewChangeDetector] show ?thesis
    by simp
qed

text \<open>
  The claim as stated fails: an aircraft whose latitude is NaN differs from itself
  under \<^verbatim>\<open>!=\<close>, and the second call on the same list reports it as updated.
\<close>

theorem DetectChanges_twice_counterexample:
  "fst (DetectChanges (snd (DetectChanges NewChangeDetector [aircraft_nan])) [aircraft_nan]) =
     [\<lparr> Type = ''updated'', Aircraft = Some aircraft_nan, ChangeHex = ''c01234'' \<rparr>]"
  by (simp add: DetectChanges_def NewChangeDetector_def build_currentMap_def new_or_updated_def
      removed_entry_def hasAnyChanges_def f_ne_def aircraft_nan_def aircraft0_def adsb0_def)

section \<open>Theorems: multi-fanout buffer\<close>



lemma write_bytes_fields [simp]:
  "bufferSize (write_bytes p mr) = bufferSize mr"
  "readers (write_bytes p mr) = readers mr"
  "mr_closed (write_bytes p mr) = mr_closed mr"
  by (induction p arbitrary: mr) simp_all

lemma wf_write_bytes: "wf_buffer mr \<Longrightarrow> wf_buffer (write_bytes p mr)"
proof (induction p arbitrary: mr)
  case Nil
  then show ?case by simp
next
  case (Cons b p)
  have "wf_buffer (mr\<lparr> buffer := (buffer mr)[writeIndex mr := b],
                        writeIndex := (writeIndex mr + 1) mod bufferSize mr \<rparr>)"
    using Cons.prems by (simp add: wf_buffer_def)
  from Cons.IH [OF this] show ?case
    by simp
qed

lemma wf_CreateReader: "wf_buffer mr \<Longrightarrow> wf_buffer (CreateReader mr rid)"
  by (simp add: wf_buffer_def CreateReader_def split: option.splits)

lemma wf_Write: "wf_buffer mr \<Longrightarrow> wf_buffer (snd (Write mr p))"
  by (simp add: Write_def wf_write_bytes)

lemma wf_RemoveReader: "wf_buffer mr \<Longrightarrow> wf_buffer (RemoveReader mr rid)"
  by (simp add: wf_buffer_def RemoveReader_def split: option.split)

lemma wf_Close: "wf_buffer mr \<Longrightarrow> wf_buffer (Close mr)"
  by (simp add: wf_buffer_def Close_def)

lemma wf_buffer_readers: "wf_buffer (mr\<lparr> readers := rs \<rparr>) = wf_buffer mr"
  by (simp add: wf_buffer_def)

lemma wf_read_available:
  "wf_buffer mr \<Longrightarrow> wf_buffer (snd (read_available mr rid n bufSize rIndex wIndex))"
  unfolding read_available_def Let_def
  by (simp add: wf_buffer_readers split: sum.split prod.split option.split)

lemma wf_Read:
  assumes "wf_buffer mr" and "\<And>mr'. wk = Signalled mr' \<Longrightarrow> wf_buffer mr'"
  shows "wf_buffer (snd (Read mr rid n wk))"
proof (cases "readers mr rid")
  case None
  then show ?thesis
    using assms(1) by (simp add: Read_def)
next
  case (Some st)
  show ?thesis
  proof (cases wk)
    case TimedOut
    then show ?thesis
      using assms(1) Some by (simp add: Read_def wf_read_available)
  next
    case Cancelled
    then show ?thesis
      using assms(1) Some by (simp add: Read_def wf_read_available)
  next
    case (Signalled mr')
    then have "wf_buffer mr'"
      by (rule assms(2))
    then show ?thesis
      using assms(1) Some Signalled
      by (simp add: Read_def wf_read_available split: option.split)
  qed
qed






lemma take_ring_inside:
  assumes "length buf = m" and "r + c \<le> m"
  shows "take c (drop r (buf @ buf)) = slice r (r + c) buf"
  using assms by (simp add: slice_def)

























lemma CreateReader_closed [simp]: "mr_closed (CreateReader mr rid) = mr_closed mr"
  by (simp add: CreateReader_def split: option.splits)

lemma CreateReader_bufferSize [simp]: "bufferSize (CreateReader mr rid) = bufferSize mr"
  by (simp add: CreateReader_def split: option.splits)





text \<open>
  Why the runs of the theorem have no wait that ends on nothing: a \<^verbatim>\<open>Read\<close> that is
  woken with the read index still at the write index (by a \<^verbatim>\<open>Write\<close> of no bytes) takes
  the whole ring for available data and returns its contents, which here are the six
  bytes written before the reader was created, behind two bytes never written.
\<close>

lemma run_woken_without_data:
  "run (CreateReader mr8 ''b'') ''b'' [DoRead 8 [[]]] = ([], [[0, 0, 1, 2, 3, 4, 5, 6]]) \<and>
   \<not> wakes_carry_data (bufferSize mr8) 0 [DoRead 8 [[]]]"
  by code_simp


section \<open>Theorems: post-processor\<close>

lemma mark_failed_eq:
  "mark_failed sentinel records table =
     map (\<lambda>r. if ID r \<in> set (map ID records) then failed_row r sentinel else r) table"
proof (induction records arbitrary: table)
  case Nil
  then show ?case by simp
next
  case (Cons r records)
  show ?case
    by (simp add: UpdateProcessedTranscription_def Cons.IH failed_row_def)
qed

lemma GetUnprocessed_subset:
  "GetUnprocessedTranscriptions table limit = Inr records \<Longrightarrow>
   set records \<subseteq> {r \<in> set table. \<not> IsProcessed r}"
proof -
  assume "GetUnprocessedTranscriptions table limit = Inr records"
  then have "records = take (nat limit) (sort_key CreatedAt (filter (\<lambda>r. \<not> IsProcessed r) table))"
    by (simp add: GetUnprocessedTranscriptions_def)
  then have "set records \<subseteq> set (sort_key CreatedAt (filter (\<lambda>r. \<not> IsProcessed r) table))"
    using set_take_subset by metis
  then show ?thesis
    by auto
qed

lemma prepare_batch_records:
  assumes "prepare_batch p env st = Inr (records, contextRecords, frequencyName, batchJSON)"
  shows "records \<noteq> []" and "set records \<subseteq> set (transcriptions st)"
proof -
  from assms have g: "GetUnprocessedTranscriptions (transcriptions st) (batchSize p) = Inr records"
    and n: "records \<noteq> []"
    by (auto simp add: prepare_batch_def Let_def split: sum.splits if_splits)
  show "records \<noteq> []" by (fact n)
  show "set records \<subseteq> set (transcriptions st)"
    using GetUnprocessed_subset [OF g] by auto
qed

lemma batch_marked_mark_failed:
  assumes "set records \<subseteq> set table"
  shows "batch_marked sentinel records (mark_failed sentinel records table)"
proof -
  have "ID ` set records \<subseteq> ID ` set table"
    using assms by auto
  moreover have "map ID (mark_failed sentinel records table) = map ID table"
    unfolding mark_failed_eq by (simp add: failed_row_def comp_def if_distrib cong: if_cong)
  then have "ID ` set (mark_failed sentinel records table) = ID ` set table"
    by (metis set_map)
  moreover have "\<forall>row \<in> set (mark_failed sentinel records table).
      ID row \<in> set (map ID records) \<longrightarrow>
        IsProcessed row \<and> ContentProcessed row = sentinel \<and> SpeakerType row = ''UNKNOWN''"
    unfolding mark_failed_eq by (auto simp add: failed_row_def)
  ultimately show ?thesis
    unfolding batch_marked_def by simp
qed

lemma not_fetched_again_marked:
  assumes "batch_marked sentinel records table"
  shows "not_fetched_again limit records table"
proof -
  have "set (map ID next) \<inter> set (map ID records) = {}"
    if "GetUnprocessedTranscriptions table limit = Inr next" for "next"
  proof -
    from GetUnprocessed_subset [OF that]
    have "\<forall>r \<in> set next. r \<in> set table \<and> \<not> IsProcessed r"
      by auto
    then show ?thesis
      using assms by (auto simp add: batch_marked_def)
  qed
  then show ?thesis
    by (simp add: not_fetched_again_def split: sum.splits)
qed

lemma processNextBatch_render_failed:
  assumes "prepare_batch p env st = Inr (records, contextRecords, frequencyName, batchJSON)"
    and "RenderPostProcessorTemplate env (SystemPromptPath p) = Inl err"
  shows "processNextBatch p env st =
           (Some err, st\<lparr> transcriptions :=
                            mark_failed ''[TEMPLATE_RENDER_FAILED]'' records (transcriptions st) \<rparr>)"
  using assms by (simp add: processNextBatch_def)

lemma processNextBatch_call_failed:
  assumes "prepare_batch p env st = Inr (records, contextRecords, frequencyName, batchJSON)"
    and "RenderPostProcessorTemplate env (SystemPromptPath p) = Inr systemPrompt"
    and "PostProcessBatch env systemPrompt (user_input frequencyName batchJSON) (Model p) = Inl err"
  shows "processNextBatch p env st =
           (Some (Wrapped ''failed to post-process batch'' err),
            st\<lparr> transcriptions :=
                  mark_failed ''[PROCESSING_FAILED]'' records (transcriptions st) \<rparr>)"
  using assms by (simp add: processNextBatch_def processBatch_def)

lemma processNextBatch_no_results:
  assumes "prepare_batch p env st = Inr (records, contextRecords, frequencyName, batchJSON)"
    and "RenderPostProcessorTemplate env (SystemPromptPath p) = Inr systemPrompt"
    and "PostProcessBatch env systemPrompt (user_input frequencyName batchJSON) (Model p) = Inr []"
  shows "processNextBatch p env st =
           (None, st\<lparr> transcriptions :=
                         mark_failed ''[NO_RESULTS_FROM_API]'' records (transcriptions st) \<rparr>)"
  using assms by (simp add: processNextBatch_def processBatch_def)

text \<open>
  C1. Take a tick that has fetched a non-empty batch of unprocessed records and
  encoded it. If rendering the system-prompt template fails, the tick returns that
  error and every row of the batch is written with \<^verbatim>\<open>[TEMPLATE_RENDER_FAILED]\<close> and
  speaker \<^verbatim>\<open>UNKNOWN\<close>; if the language-model call fails, it returns the wrapped error
  and the rows carry \<^verbatim>\<open>[PROCESSING_FAILED]\<close>; if the call returns an empty list, it
  returns nil and the rows carry \<^verbatim>\<open>[NO_RESULTS_FROM_API]\<close>. In all three cases every
  row of the batch ends marked processed and no later fetch of unprocessed records
  returns it.
\<close>

theorem processNextBatch_poison_pill:
  assumes "prepare_batch p env st = Inr (records, contextRecords, frequencyName, batchJSON)"
  defines "render \<equiv> RenderPostProcessorTemplate env (SystemPromptPath p)"
    and "call \<equiv> \<lambda>systemPrompt.
           PostProcessBatch env systemPrompt (user_input frequencyName batchJSON) (Model p)"
    and "returned \<equiv> fst (processNextBatch p env st)"
    and "table' \<equiv> transcriptions (snd (processNextBatch p env st))"
  shows "records \<noteq> [] \<and>
     (\<forall>err. render = Inl err \<longrightarrow>
        returned = Some err \<and>
        batch_marked ''[TEMPLATE_RENDER_FAILED]'' records table' \<and>
        not_fetched_again limit records table') \<and>
     (\<forall>systemPrompt err. render = Inr systemPrompt \<and> call systemPrompt = Inl err \<longrightarrow>
        returned = Some (Wrapped ''failed to post-process batch'' err) \<and>
        batch_marked ''[PROCESSING_FAILED]'' records table' \<and>
        not_fetched_again limit records table') \<and>
     (\<forall>systemPrompt. render = Inr systemPrompt \<and> call systemPrompt = Inr [] \<longrightarrow>
        returned = None \<and>
        batch_marked ''[NO_RESULTS_FROM_API]'' records table' \<and>
        not_fetched_again limit records table')"
proof -
  note r = prepare_batch_records [OF assms(1)]
  have m: "batch_marked sentinel records (mark_failed sentinel records (transcriptions st))
           \<and> not_fetched_again limit records (mark_failed sentinel records (transcriptions st))"
    for sentinel
    using batch_marked_mark_failed [OF r(2), of sentinel] not_fetched_again_marked by blast
  have 1: "returned = Some err \<and> batch_marked ''[TEMPLATE_RENDER_FAILED]'' records table'
           \<and> not_fetched_again limit records table'" if "render = Inl err" for err
    using processNextBatch_render_failed [OF assms(1) that [unfolded render_def]] m
    by (simp add: returned_def table'_def)
  have 2: "returned = Some (Wrapped ''failed to post-process batch'' err)
           \<and> batch_marked ''[PROCESSING_FAILED]'' records table'
           \<and> not_fetched_again limit records table'"
    if "render = Inr systemPrompt \<and> call systemPrompt = Inl err" for systemPrompt err
    using processNextBatch_call_failed [OF assms(1), of systemPrompt err] that m
    by (simp add: returned_def table'_def render_def call_def)
  have 3: "returned = None \<and> batch_marked ''[NO_RESULTS_FROM_API]'' records table'
           \<and> not_fetched_again limit records table'"
    if "render = Inr systemPrompt \<and> call systemPrompt = Inr []" for systemPrompt
    using processNextBatch_no_results [OF assms(1), of systemPrompt] that m
    by (simp add: returned_def table'_def render_def call_def)
  show ?thesis
    using r(1) 1 2 3 by blast
qed

theorem processNextBatch_poison_pill_witness:
  "prepare_batch processor0 env_render_fails state0 = Inr (table0, [], ''twr'', ''[]'') \<and>
   RenderPostProcessorTemplate env_render_fails (SystemPromptPath processor0)
     = Inl (ErrOther ''template not found'') \<and>
   processNextBatch processor0 env_render_fails state0 =
     (Some (ErrOther ''template not found''),
      state0\<lparr> transcriptions := map (\<lambda>r. failed_row r ''[TEMPLATE_RENDER_FAILED]'') table0 \<rparr>) \<and>
   prepare_batch processor0 env_http_500 state0 = Inr (table0, [], ''twr'', ''[]'') \<and>
   PostProcessBatch env_http_500 ''system prompt'' (user_input ''twr'' ''[]'') (Model processor0)
     = Inl (ErrOther ''status 500'') \<and>
   processNextBatch processor0 env_http_500 state0 =
     (Some (Wrapped ''failed to post-process batch'' (ErrOther ''status 500'')),
      state0\<lparr> transcriptions := map (\<lambda>r. failed_row r ''[PROCESSING_FAILED]'') table0 \<rparr>) \<and>
   prepare_batch processor0 env_no_results state0 = Inr (table0, [], ''twr'', ''[]'') \<and>
   PostProcessBatch env_no_results ''system prompt'' (user_input ''twr'' ''[]'') (Model processor0)
     = Inr [] \<and>
   processNextBatch processor0 env_no_results state0 =
     (None,
      state0\<lparr> transcriptions := map (\<lambda>r. failed_row r ''[NO_RESULTS_FROM_API]'') table0 \<rparr>) \<and>
   GetUnprocessedTranscriptions
     (transcriptions (snd (processNextBatch processor0 env_http_500 state0))) 10 = Inr []"
proof -
  have p1: "prepare_batch processor0 env_render_fails state0 = Inr (table0, [], ''twr'', ''[]'')"
    and p2: "prepare_batch processor0 env_http_500 state0 = Inr (table0, [], ''twr'', ''[]'')"
    and p3: "prepare_batch processor0 env_no_results state0 = Inr (table0, [], ''twr'', ''[]'')"
    by code_simp+
  have r: "RenderPostProcessorTemplate env_render_fails (SystemPromptPath processor0)
             = Inl (ErrOther ''template not found'')"
    "PostProcessBatch env_http_500 ''system prompt'' (user_input ''twr'' ''[]'') (Model processor0)
       = Inl (ErrOther ''status 500'')"
    "PostProcessBatch env_no_results ''system prompt'' (user_input ''twr'' ''[]'') (Model processor0)
       = Inr []"
    by (simp_all add: env_render_fails_def env_http_500_def env_no_results_def)
  have e: "processNextBatch processor0 env_render_fails state0 =
     (Some (ErrOther ''template not found''),
      state0\<lparr> transcriptions := map (\<lambda>r. failed_row r ''[TEMPLATE_RENDER_FAILED]'') table0 \<rparr>)"
    "processNextBatch processor0 env_http_500 state0 =
     (Some (Wrapped ''failed to post-process batch'' (ErrOther ''status 500'')),
      state0\<lparr> transcriptions := map (\<lambda>r. failed_row r ''[PROCESSING_FAILED]'') table0 \<rparr>)"
    "processNextBatch processor0 env_no_results state0 =
     (None,
      state0\<lparr> transcriptions := map (\<lambda>r. failed_row r ''[NO_RESULTS_FROM_API]'') table0 \<rparr>)"
    by code_simp+
  have g: "GetUnprocessedTranscriptions
     (transcriptions (snd (processNextBatch processor0 env_http_500 state0))) 10 = Inr []"
    by code_simp
  from processNextBatch_poison_pill [OF p1, of 10]
    processNextBatch_poison_pill [OF p2, of 10]
    processNextBatch_poison_pill [OF p3, of 10]
    p1 p2 p3 r e g
  show ?thesis
    by simp
qed

section \<open>Theorems: position prediction\<close>

lemma f_lt_minus_100: "f_lt h (Finite (- 100)) \<Longrightarrow> f_lt h (Finite 0)"
  by (cases h) (simp_all add: f_lt_def)

lemma predicted_altitude_source:
  "(let h = op_add ops altBaro (op_mul ops verticalRateFtMin (Finite (real minutes)))
    in if toward \<and> f_lt h (Finite 0)
       then (if f_lt h (Finite (- 100)) then Finite (- 100) else h) else h)
   = predicted_altitude ops altBaro verticalRateFtMin toward minutes"
  using f_lt_minus_100 by (auto simp add: predicted_altitude_def Let_def)

lemma Haversine_same_point:
  "Haversine exact_ops (Finite a) (Finite b) (Finite a) (Finite b) = Finite 0"
  by (simp add: Haversine_def exact_ops_def Let_def atan2_real_def)

lemma Bearing_due_north:
  assumes "0 < a" and "a < 180"
  shows "Bearing exact_ops (Finite 0) (Finite b) (Finite a) (Finite b) = Finite 0"
proof -
  have "0 < a * pi / 180" using assms by simp
  moreover have "a * pi / 180 < pi" using assms by simp
  ultimately have "0 < sin (a * pi / 180)" by (rule sin_gt_zero)
  then show ?thesis
    by (simp add: Bearing_def to_radians_def exact_ops_def Let_def atan2_real_def f_lt_def)
qed

lemma scaled_speed_exact:
  assumes "d < 10"
  shows "scaled_speed exact_ops (Finite s) (Finite d) True = Finite (s * (1 - (10 - d) / 40))"
    and "scaled_speed exact_ops (Finite s) (Finite d) False = Finite (s * (1 + (10 - d) / 40))"
  using assms by (simp_all add: scaled_speed_def exact_ops_def f_lt_def)

lemma scaled_speed_within_quarter:
  assumes "0 \<le> d" and "d < 10" and "0 \<le> s"
  shows "\<exists>v w. scaled_speed exact_ops (Finite s) (Finite d) True = Finite v
             \<and> scaled_speed exact_ops (Finite s) (Finite d) False = Finite w
             \<and> 3 / 4 * s \<le> v \<and> v \<le> s \<and> s \<le> w \<and> w \<le> 5 / 4 * s"
proof -
  define t where "t = (10 - d) / 40"
  have "0 \<le> t" and "t \<le> 1 / 4" using assms by (simp_all add: t_def)
  then have "0 \<le> s * t" and "s * t \<le> s * (1 / 4)"
    using assms(3) by (simp, intro mult_left_mono)
  then have "3 / 4 * s \<le> s * (1 - t)" and "s * (1 - t) \<le> s"
    and "s \<le> s * (1 + t)" and "s * (1 + t) \<le> 5 / 4 * s"
    by (simp_all add: algebra_simps)
  then show ?thesis using scaled_speed_exact [OF assms(2), of s] by (simp add: t_def)
qed

lemma PredictFuturePositions_unfold:
  "PredictFuturePositions ops configInstance now_utc lat lon altBaro trueHeading magHeading
      speedKnots verticalRateFtMin =
     map (\<lambda>i.
        let station = GetStationCoordinates ops configInstance;
            toward = approaching ops station lat lon trueHeading;
            p = dead_reckoning ops lat lon trueHeading speedKnots (i + 1);
            reported = scaled_speed ops speedKnots (station_distance_NM ops station p) toward
        in \<lparr> pos_Lat = fst p, pos_Lon = snd p,
             pos_Altitude = predicted_altitude ops altBaro verticalRateFtMin toward (i + 1),
             pos_SpeedTrue = reported, pos_SpeedGS = reported,
             pos_TrueHeading = trueHeading, pos_MagHeading = magHeading,
             pos_Timestamp = now_utc + int (i + 1) * Minute \<rparr>) [0..<5]"
  unfolding PredictFuturePositions_def Let_def
  by (auto simp add: dead_reckoning_def approaching_def station_distance_NM_def
      scaled_speed_def to_radians_def predicted_altitude_def Let_def
      dest: f_lt_minus_100 simp del: upt_Suc)

text \<open>
  C9, as amended. \<^verbatim>\<open>PredictFuturePositions\<close> returns 5 samples, for 1 to 5 minutes
  after \<open>now_utc\<close>. Sample \<open>i\<close> has the headings of the input, and its position is
  constant-heading dead reckoning for \<open>i + 1\<close> minutes at the speed of the input,
  whatever the station is. The speed that the sample reports, as true airspeed and as
  ground speed, is the speed of the input scaled by the distance from that position to
  the station: decreased when the aircraft is approaching, increased when departing,
  unchanged at 10 nautical miles or more. This holds for every choice of the
  floating-point operations.
\<close>

theorem PredictFuturePositions_samples:
  "length (PredictFuturePositions ops configInstance now_utc lat lon altBaro trueHeading magHeading
      speedKnots verticalRateFtMin) = 5 \<and>
   PredictFuturePositions ops configInstance now_utc lat lon altBaro trueHeading magHeading
      speedKnots verticalRateFtMin =
     map (\<lambda>i.
        let station = GetStationCoordinates ops configInstance;
            toward = approaching ops station lat lon trueHeading;
            p = dead_reckoning ops lat lon trueHeading speedKnots (i + 1);
            reported = scaled_speed ops speedKnots (station_distance_NM ops station p) toward
        in \<lparr> pos_Lat = fst p, pos_Lon = snd p,
             pos_Altitude = predicted_altitude ops altBaro verticalRateFtMin toward (i + 1),
             pos_SpeedTrue = reported, pos_SpeedGS = reported,
             pos_TrueHeading = trueHeading, pos_MagHeading = magHeading,
             pos_Timestamp = now_utc + int (i + 1) * Minute \<rparr>) [0..<5]"
  using PredictFuturePositions_unfold [of ops configInstance now_utc lat lon altBaro trueHeading
      magHeading speedKnots verticalRateFtMin]
  by simp

text \<open>The positions alone: no station and no scaling enters them.\<close>

lemma PredictFuturePositions_track:
  "map (\<lambda>p. (pos_Lat p, pos_Lon p))
      (PredictFuturePositions ops configInstance now_utc lat lon altBaro trueHeading magHeading
         speedKnots verticalRateFtMin)
   = map (\<lambda>i. dead_reckoning ops lat lon trueHeading speedKnots (i + 1)) [0..<5]"
  unfolding PredictFuturePositions_def Let_def
  by (simp add: dead_reckoning_def to_radians_def Let_def del: upt_Suc)

text \<open>
  The claim as it was stated, with the scaled speed as the speed the prediction uses,
  fails with the station at the first predicted position of an aircraft that flies
  north at 120 knots: the sample reports 90 knots, its position is one minute at 120
  knots, and one minute at 90 knots ends elsewhere.
\<close>

theorem PredictFuturePositions_speed_counterexample:
  "pos_SpeedTrue (hd (PredictFuturePositions exact_ops config_north 0 (Finite 0) (Finite 1)
       (Finite 3000) (Finite 0) (Finite 0) (Finite 120) (Finite 0))) = Finite 90 \<and>
   pos_Lat (hd (PredictFuturePositions exact_ops config_north 0 (Finite 0) (Finite 1)
       (Finite 3000) (Finite 0) (Finite 0) (Finite 120) (Finite 0))) = Finite (463 / 13875) \<and>
   fst (dead_reckoning exact_ops (Finite 0) (Finite 1) (Finite 0) (Finite 120) 1)
     = Finite (463 / 13875) \<and>
   fst (dead_reckoning exact_ops (Finite 0) (Finite 1) (Finite 0) (Finite 90) 1)
     = Finite (463 / 18500)"
proof -
  have station: "GetStationCoordinates exact_ops config_north = (Finite (463 / 13875), Finite 1)"
    by (simp add: GetStationCoordinates_def config_north_def f_ne_def)
  have north: "Bearing exact_ops (Finite 0) (Finite 1) (Finite (463 / 13875)) (Finite 1) = Finite 0"
    by (rule Bearing_due_north) simp_all
  have toward: "approaching exact_ops (Finite (463 / 13875), Finite 1) (Finite 0) (Finite 1) (Finite 0)"
    by (simp add: approaching_def north Let_def) (simp add: exact_ops_def f_lt_def)
  have p: "dead_reckoning exact_ops (Finite 0) (Finite 1) (Finite 0) (Finite 120) (Suc 0)
            = (Finite (463 / 13875), Finite 1)"
    by (simp add: dead_reckoning_def to_radians_def exact_ops_def Let_def)
  have q: "fst (dead_reckoning exact_ops (Finite 0) (Finite 1) (Finite 0) (Finite 90) (Suc 0))
            = Finite (463 / 18500)"
    by (simp add: dead_reckoning_def to_radians_def exact_ops_def Let_def)
  have d: "station_distance_NM exact_ops (Finite (463 / 13875), Finite 1)
             (Finite (463 / 13875), Finite 1) = Finite 0"
    by (simp add: station_distance_NM_def Haversine_same_point) (simp add: exact_ops_def)
  have s: "scaled_speed exact_ops (Finite 120) (Finite 0) True = Finite 90"
    by (simp add: scaled_speed_def exact_ops_def f_lt_def)
  have "hd (map f [0..<5]) = f 0" for f :: "nat \<Rightarrow> Position"
    by (simp add: upt_conv_Cons)
  then show ?thesis
    using PredictFuturePositions_unfold [of exact_ops config_north 0 "Finite 0" "Finite 1"
        "Finite 3000" "Finite 0" "Finite 0" "Finite 120" "Finite 0"]
    by (simp add: station toward p q d s Let_def del: upt_Suc)
qed

end
